theory Spec2Isabelle
  imports Main
begin

section \<open>JavaScript values and objects\<close>

text \<open>
  The telemetry payloads are untyped JSON objects (\<^verbatim>\<open>Record<string, unknown>\<close>).
  A value is \<^verbatim>\<open>undefined\<close>, \<^verbatim>\<open>null\<close>, a boolean, a number, a string or an array of
  sensor entries \<^verbatim>\<open>{id, name, value}\<close> (the element type the source declares for the
  \<^verbatim>\<open>sensors\<close> and \<^verbatim>\<open>fans\<close> arrays; \<^verbatim>\<open>id\<close> and \<^verbatim>\<open>name\<close> are strings, \<^verbatim>\<open>value\<close> is any value,
  since the source only casts it).

  Numbers are the integer readings the device reports: on integers of telemetry size
  the double arithmetic of \<^verbatim>\<open>reduce\<close>, \<^verbatim>\<open>/\<close> and \<^verbatim>\<open>Math.round\<close> is exact.
  Where the source's arithmetic meets an operand that is not a number, JavaScript coerces
  it; the number it then computes is kept uninterpreted as \<open>JCoerced\<close> of the operands.

  A string is the list of its code units, each below 256 (Latin-1); e-acute is one unit.
  Sensor and fan ids are assumed not to be names of members of \<^verbatim>\<open>Object.prototype\<close>
  (such as \<^verbatim>\<open>constructor\<close>), for which a lookup in an object literal finds the member.
\<close>

datatype jv =
    JUndefined
  | JNull
  | JBool bool
  | JNum int
  | JStr string
  | JArr "sensor list"
  | JCoerced "jv list"
and sensor =
    Sensor (sensor_id: string) (sensor_name: string) (sensor_value: jv)

type_synonym obj = "string \<Rightarrow> jv option"

text \<open>Reading a property: a missing key reads as \<^verbatim>\<open>undefined\<close>.\<close>

definition field :: "obj \<Rightarrow> string \<Rightarrow> jv" where
  "field data k = (case data k of None \<Rightarrow> JUndefined | Some v \<Rightarrow> v)"

text \<open>\<^verbatim>\<open>v == null\<close> holds of \<^verbatim>\<open>null\<close> and \<^verbatim>\<open>undefined\<close> only.\<close>

fun nullish :: "jv \<Rightarrow> bool" where
  "nullish JUndefined = True"
| "nullish JNull = True"
| "nullish _ = False"

fun js_number :: "jv \<Rightarrow> int option" where
  "js_number (JNum n) = Some n"
| "js_number _ = None"

fun numbers :: "jv list \<Rightarrow> int list option" where
  "numbers [] = Some []"
| "numbers (t # ts) =
     (case js_number t of
        None \<Rightarrow> None
      | Some n \<Rightarrow> (case numbers ts of None \<Rightarrow> None | Some ns \<Rightarrow> Some (n # ns)))"

text \<open>
  \<^verbatim>\<open>Math.round(x)\<close> is \<open>\<lfloor>x + 1/2\<rfloor>\<close>; for \<open>x = s / n\<close> with \<open>n > 0\<close> that is
  \<open>(2 * s + n) div (2 * n)\<close>.
\<close>

definition round_div :: "int \<Rightarrow> int \<Rightarrow> int" where
  "round_div s n = (2 * s + n) div (2 * n)"

text \<open>\<^verbatim>\<open>Math.round(ts.reduce((a, b) => a + b, 0) / ts.length)\<close>\<close>

definition round_mean :: "jv list \<Rightarrow> jv" where
  "round_mean ts =
     (case numbers ts of
        Some ns \<Rightarrow> JNum (round_div (sum_list ns) (int (length ns)))
      | None \<Rightarrow> JCoerced ts)"

section \<open>Strings\<close>

definition startsWith :: "string \<Rightarrow> string \<Rightarrow> bool" where
  "startsWith s p = (take (length p) s = p)"

definition lower_letters :: string where
  "lower_letters = ''abcdefghijklmnopqrstuvwxyz''"

definition upper_letters :: string where
  "upper_letters = ''ABCDEFGHIJKLMNOPQRSTUVWXYZ''"

text \<open>\<^verbatim>\<open>\w\<close> of a regular expression without the \<^verbatim>\<open>u\<close> flag: ASCII letters, digits, underscore.\<close>

definition is_word :: "char \<Rightarrow> bool" where
  "is_word c = (c \<in> set (lower_letters @ upper_letters @ ''0123456789_''))"

text \<open>\<^verbatim>\<open>toUpperCase\<close> on a character that \<^verbatim>\<open>\w\<close> matched.\<close>

definition toUpperCase :: "char \<Rightarrow> char" where
  "toUpperCase c = (case map_of (zip lower_letters upper_letters) c of None \<Rightarrow> c | Some u \<Rightarrow> u)"

text \<open>\<^verbatim>\<open>\s\<close> and the characters \<^verbatim>\<open>trim\<close> removes, below 256: TAB, LF, VT, FF, CR, space, NBSP.\<close>

definition is_space :: "char \<Rightarrow> bool" where
  "is_space c = (c \<in> set [CHR 0x09, CHR 0x0A, CHR 0x0B, CHR 0x0C, CHR 0x0D, CHR 0x20, CHR 0xA0])"

definition trim :: "string \<Rightarrow> string" where
  "trim s = rev (dropWhile is_space (rev (dropWhile is_space s)))"

text \<open>\<^verbatim>\<open>s.replace(p, '')\<close> with a string pattern: the first occurrence only.\<close>

fun remove_first :: "string \<Rightarrow> string \<Rightarrow> string" where
  "remove_first p [] = []"
| "remove_first p (c # cs) =
     (if startsWith (c # cs) p then drop (length p) (c # cs) else c # remove_first p cs)"

text \<open>\<^verbatim>\<open>s.replace(/_/g, ' ')\<close>\<close>

definition underscores_to_spaces :: "string \<Rightarrow> string" where
  "underscores_to_spaces s = map (\<lambda>c. if c = CHR ''_'' then CHR '' '' else c) s"

text \<open>
  \<^verbatim>\<open>s.replace(/\b\w/g, l => l.toUpperCase())\<close>: a word character is rewritten when the
  character before it is not a word character (or there is none). The flag says whether
  the previous character was a word character.
\<close>

fun capitalize_from :: "bool \<Rightarrow> string \<Rightarrow> string" where
  "capitalize_from prev [] = []"
| "capitalize_from prev (c # cs) =
     (if is_word c \<and> \<not> prev then toUpperCase c else c) # capitalize_from (is_word c) cs"

definition capitalize_words :: "string \<Rightarrow> string" where
  "capitalize_words s = capitalize_from False s"

text \<open>
  \<^verbatim>\<open>s.replace(/^PAT\s+/i, '')\<close> for a pattern of letters. The pattern is given as the
  list of its letters, each with the two characters that match it when case is ignored.
\<close>

fun matches_ci :: "(char \<times> char) list \<Rightarrow> string \<Rightarrow> bool" where
  "matches_ci [] s = True"
| "matches_ci (p # ps) [] = False"
| "matches_ci (p # ps) (c # cs) = ((c = fst p \<or> c = snd p) \<and> matches_ci ps cs)"

definition strip_prefix_ci :: "(char \<times> char) list \<Rightarrow> string \<Rightarrow> string" where
  "strip_prefix_ci pat s =
     (let rest = drop (length pat) s
      in if matches_ci pat s \<and> rest \<noteq> [] \<and> is_space (hd rest)
         then dropWhile is_space rest else s)"

text \<open>\<^verbatim>\<open>Temperature\<close> with e-acute (code unit 0xE9, upper case 0xC9) and \<^verbatim>\<open>Temperature\<close>.\<close>

definition temperature_fr :: "(char \<times> char) list" where
  "temperature_fr =
     [(CHR ''T'', CHR ''t''), (CHR ''e'', CHR ''E''), (CHR ''m'', CHR ''M''),
      (CHR ''p'', CHR ''P''), (CHR 0xE9, CHR 0xC9), (CHR ''r'', CHR ''R''),
      (CHR ''a'', CHR ''A''), (CHR ''t'', CHR ''T''), (CHR ''u'', CHR ''U''),
      (CHR ''r'', CHR ''R''), (CHR ''e'', CHR ''E'')]"

definition temperature_en :: "(char \<times> char) list" where
  "temperature_en =
     [(CHR ''T'', CHR ''t''), (CHR ''e'', CHR ''E''), (CHR ''m'', CHR ''M''),
      (CHR ''p'', CHR ''P''), (CHR ''e'', CHR ''E''), (CHR ''r'', CHR ''R''),
      (CHR ''a'', CHR ''A''), (CHR ''t'', CHR ''T''), (CHR ''u'', CHR ''U''),
      (CHR ''r'', CHR ''R''), (CHR ''e'', CHR ''E'')]"

section \<open>The API normalizer (apiNormalizer)\<close>

definition SENSOR_NAMES :: "(string \<times> string) list" where
  "SENSOR_NAMES =
     [(''temp_cpu0'', ''CPU 0''), (''temp_cpu1'', ''CPU 1''),
      (''temp_cpu2'', ''CPU 2''), (''temp_cpu3'', ''CPU 3''),
      (''temp_cpum'', ''CPU''), (''temp_cpub'', ''CPU Box''), (''temp_sw'', ''Switch''),
      (''temp_hdd'', ''Disque''), (''temp_hdd0'', ''Disque 1''), (''temp_hdd1'', ''Disque 2''),
      (''t1'', ''CPU''), (''t2'', ''CPU Box''), (''t3'', ''Switch''),
      (''cpu_ap'', ''CPU''), (''cpu_cp'', ''CPU Box''), (''switch'', ''Switch'')]"

definition FAN_NAMES :: "(string \<times> string) list" where
  "FAN_NAMES =
     [(''fan0_speed'', ''Ventilateur 1''), (''fan1_speed'', ''Ventilateur 2''),
      (''fan0'', ''Ventilateur 1''), (''fan1'', ''Ventilateur 2''),
      (''main'', ''Ventilateur''), (''fan'', ''Ventilateur''), (''fan_rpm'', ''Ventilateur'')]"

definition getSensorDisplayName :: "string \<Rightarrow> string \<Rightarrow> string" where
  "getSensorDisplayName ident originalName =
     (case map_of SENSOR_NAMES ident of
        Some n \<Rightarrow> n
      | None \<Rightarrow>
          if originalName \<noteq> []
          then trim (strip_prefix_ci temperature_en (strip_prefix_ci temperature_fr originalName))
          else capitalize_words (underscores_to_spaces (remove_first ''temp_'' ident)))"

definition getFanDisplayName :: "string \<Rightarrow> string \<Rightarrow> string" where
  "getFanDisplayName ident originalName =
     (case map_of FAN_NAMES ident of
        Some n \<Rightarrow> n
      | None \<Rightarrow>
          if originalName \<noteq> []
          then originalName
          else capitalize_words (underscores_to_spaces (remove_first ''_speed'' ident)))"

text \<open>The callbacks of the two \<^verbatim>\<open>map\<close> calls.\<close>

definition normalize_sensor :: "sensor \<Rightarrow> sensor" where
  "normalize_sensor s =
     Sensor (sensor_id s) (getSensorDisplayName (sensor_id s) (sensor_name s)) (sensor_value s)"

definition normalize_fan :: "sensor \<Rightarrow> sensor" where
  "normalize_fan f =
     Sensor (sensor_id f) (getFanDisplayName (sensor_id f) (sensor_name f)) (sensor_value f)"

text \<open>The body of the loop that extracts sensors to the legacy flat fields.\<close>

definition extract_flat :: "sensor \<Rightarrow> obj \<Rightarrow> obj" where
  "extract_flat s result =
     (let i = sensor_id s; v = sensor_value s;
          r1 = (if startsWith i ''temp_'' then result(i \<mapsto> v) else result);
          r2 = (if i = ''t1'' \<or> i = ''cpu_ap'' then r1(''temp_cpum'' \<mapsto> v) else r1);
          r3 = (if i = ''t2'' \<or> i = ''cpu_cp'' then r2(''temp_cpub'' \<mapsto> v) else r2)
      in if i = ''t3'' \<or> i = ''switch'' then r3(''temp_sw'' \<mapsto> v) else r3)"

text \<open>For Ultra: \<^verbatim>\<open>temp_cpum\<close> as the average of the cores, if not present.\<close>

definition derive_cpum :: "obj \<Rightarrow> obj" where
  "derive_cpum result =
     (if \<not> nullish (field result ''temp_cpu0'') \<and> nullish (field result ''temp_cpum'')
      then
        (let coreTemps = filter (\<lambda>t. \<not> nullish t)
               [field result ''temp_cpu0'', field result ''temp_cpu1'',
                field result ''temp_cpu2'', field result ''temp_cpu3'']
         in if length coreTemps > 0
            then result(''temp_cpum'' \<mapsto> round_mean coreTemps) else result)
      else result)"

text \<open>\<^verbatim>\<open>if (data.k != null) sensors.push({id: k, name: n, value: data.k})\<close>\<close>

definition push_flat :: "obj \<Rightarrow> string \<Rightarrow> string \<Rightarrow> sensor list" where
  "push_flat data k n = (if \<not> nullish (field data k) then [Sensor k n (field data k)] else [])"

text \<open>Legacy format: the sensors array built from the flat fields.\<close>

definition legacy_sensors :: "obj \<Rightarrow> sensor list" where
  "legacy_sensors data =
     (if \<not> nullish (field data ''temp_cpu0'')
      then push_flat data ''temp_cpu0'' ''CPU 0'' @ push_flat data ''temp_cpu1'' ''CPU 1''
         @ push_flat data ''temp_cpu2'' ''CPU 2'' @ push_flat data ''temp_cpu3'' ''CPU 3''
      else [])
     @ push_flat data ''temp_cpum'' ''CPU''
     @ push_flat data ''temp_cpub'' ''CPU Box''
     @ push_flat data ''temp_sw'' ''Switch''"

text \<open>
  The first half of \<^verbatim>\<open>normalizeSystemInfo\<close>: the \<^verbatim>\<open>sensors\<close> array. An array is always
  truthy, so \<^verbatim>\<open>rawSensors && Array.isArray(rawSensors)\<close> is the test for an array.
\<close>

definition normalize_sensors :: "obj \<Rightarrow> obj \<Rightarrow> obj" where
  "normalize_sensors data result =
     (case field data ''sensors'' of
        JArr rawSensors \<Rightarrow>
          derive_cpum
            (fold extract_flat rawSensors
               (result(''sensors'' \<mapsto> JArr (map normalize_sensor rawSensors))))
      | _ \<Rightarrow>
          (let sensors = legacy_sensors data
           in if length sensors > 0 then result(''sensors'' \<mapsto> JArr sensors) else result))"

text \<open>\<^verbatim>\<open>rawFans.find(f => ...) || rawFans[0]\<close>; an entry is an object, so it is truthy.\<close>

definition is_main_fan :: "sensor \<Rightarrow> bool" where
  "is_main_fan f =
     (sensor_id f = ''fan0_speed'' \<or> sensor_id f = ''main''
      \<or> sensor_id f = ''fan0'' \<or> sensor_id f = ''fan'')"

definition mainFan :: "sensor list \<Rightarrow> sensor option" where
  "mainFan rawFans =
     (case find is_main_fan rawFans of
        Some f \<Rightarrow> Some f
      | None \<Rightarrow> (case rawFans of [] \<Rightarrow> None | f # _ \<Rightarrow> Some f))"

text \<open>The second half: the \<^verbatim>\<open>fans\<close> array.\<close>

definition normalize_fans :: "obj \<Rightarrow> obj \<Rightarrow> obj" where
  "normalize_fans data result =
     (case field data ''fans'' of
        JArr rawFans \<Rightarrow>
          (let r = result(''fans'' \<mapsto> JArr (map normalize_fan rawFans))
           in case mainFan rawFans of
                Some f \<Rightarrow> r(''fan_rpm'' \<mapsto> sensor_value f)
              | None \<Rightarrow> r)
      | _ \<Rightarrow>
          if \<not> nullish (field data ''fan_rpm'')
          then result(''fans'' \<mapsto> JArr [Sensor ''fan_rpm'' ''Ventilateur'' (field data ''fan_rpm'')])
          else result)"

text \<open>\<^verbatim>\<open>const result = { ...data }\<close>, then the two halves, each reading \<^verbatim>\<open>data\<close>.\<close>

definition normalizeSystemInfo :: "obj \<Rightarrow> obj" where
  "normalizeSystemInfo data = normalize_fans data (normalize_sensors data data)"

section \<open>The reboot scheduler (RebootSchedulerService)\<close>

record RebootSchedule =
  enabled :: bool
  days :: "int list"
  time :: string

text \<open>\<^verbatim>\<open>Partial<RebootSchedule>\<close>: each field given or not.\<close>

record PartialSchedule =
  enabled_given :: "bool option"
  days_given :: "int list option"
  time_given :: "string option"

definition DEFAULT_SCHEDULE :: RebootSchedule where
  "DEFAULT_SCHEDULE = \<lparr>enabled = False, days = [], time = ''03:00''\<rparr>"

text \<open>
  The service's state: the schedule in memory, the active cron task (its cron expression)
  and the content of the schedule file on disk.
\<close>

record scheduler =
  schedule :: RebootSchedule
  task :: "string option"
  saved :: "RebootSchedule option"

text \<open>\<^verbatim>\<open>{ ...this.schedule, ...newSchedule }\<close>\<close>

definition merge_schedule :: "RebootSchedule \<Rightarrow> PartialSchedule \<Rightarrow> RebootSchedule" where
  "merge_schedule cur new =
     \<lparr>enabled = (case enabled_given new of None \<Rightarrow> enabled cur | Some b \<Rightarrow> b),
      days = (case days_given new of None \<Rightarrow> days cur | Some d \<Rightarrow> d),
      time = (case time_given new of None \<Rightarrow> time cur | Some t \<Rightarrow> t)\<rparr>"

text \<open>
  \<^verbatim>\<open>saveSchedule\<close>: \<^verbatim>\<open>writeFileSync\<close> inside \<^verbatim>\<open>try\<close>; a failed write is logged and
  nothing else happens. Whether the write succeeds is the environment's choice \<open>write_ok\<close>.
\<close>

definition saveSchedule :: "bool \<Rightarrow> scheduler \<Rightarrow> scheduler" where
  "saveSchedule write_ok s = (if write_ok then s\<lparr>saved := Some (schedule s)\<rparr> else s)"

text \<open>\<^verbatim>\<open>s.split(':')\<close>\<close>

fun split_on :: "char \<Rightarrow> string \<Rightarrow> string list" where
  "split_on d [] = [[]]"
| "split_on d (c # cs) =
     (if c = d then [] # split_on d cs
      else (case split_on d cs of [] \<Rightarrow> [[c]] | p # ps \<Rightarrow> (c # p) # ps))"

text \<open>A destructured array element inside a template literal: a missing one prints as \<^verbatim>\<open>undefined\<close>.\<close>

definition element_text :: "string list \<Rightarrow> nat \<Rightarrow> string" where
  "element_text parts i = (if i < length parts then parts ! i else ''undefined'')"

fun show_nat :: "nat \<Rightarrow> string" where
  "show_nat n =
     (if n < 10 then [''0123456789'' ! n]
      else show_nat (n div 10) @ [''0123456789'' ! (n mod 10)])"

definition show_int :: "int \<Rightarrow> string" where
  "show_int i = (if i < 0 then CHR ''-'' # show_nat (nat (- i)) else show_nat (nat i))"

text \<open>\<^verbatim>\<open>xs.join(',')\<close>\<close>

fun join_commas :: "string list \<Rightarrow> string" where
  "join_commas [] = []"
| "join_commas [x] = x"
| "join_commas (x # y # ys) = x @ CHR '','' # join_commas (y # ys)"

definition cronExpression :: "RebootSchedule \<Rightarrow> string" where
  "cronExpression sch =
     (let parts = split_on CHR '':'' (time sch);
          hour = element_text parts 0;
          minute = element_text parts 1;
          daysStr = join_commas (map show_int (days sch))
      in minute @ '' '' @ hour @ '' * * '' @ daysStr)"

text \<open>
  \<^verbatim>\<open>updateCronJob\<close>. \<open>validate\<close> is \<^verbatim>\<open>cron.validate\<close> of the node-cron library.
\<close>

definition updateCronJob :: "(string \<Rightarrow> bool) \<Rightarrow> scheduler \<Rightarrow> scheduler" where
  "updateCronJob validate s =
     (let s1 = s\<lparr>task := None\<rparr>
      in if \<not> enabled (schedule s1) \<or> length (days (schedule s1)) = 0 then s1
         else if \<not> validate (cronExpression (schedule s1)) then s1
         else s1\<lparr>task := Some (cronExpression (schedule s1))\<rparr>)"

text \<open>\<^verbatim>\<open>updateSchedule\<close>: the value returned and the state left behind.\<close>

definition updateSchedule ::
  "(string \<Rightarrow> bool) \<Rightarrow> bool \<Rightarrow> PartialSchedule \<Rightarrow> scheduler \<Rightarrow> RebootSchedule \<times> scheduler" where
  "updateSchedule validate write_ok newSchedule s =
     (let s1 = s\<lparr>schedule := merge_schedule (schedule s) newSchedule\<rparr>;
          s2 = saveSchedule write_ok s1;
          s3 = updateCronJob validate s2
      in (schedule s3, s3))"

section \<open>The client stores and the WebSocket reducer\<close>

text \<open>
  \<^verbatim>\<open>ConnectionStatus\<close> is declared outside the files at hand; the reducer reads its two
  rates. The rest of it is the record's extension.
\<close>

record ConnectionStatus =
  rate_down :: int
  rate_up :: int

text \<open>The points of the two histories; \<open>at\<close> is the \<^verbatim>\<open>time\<close> label.\<close>

record NetworkStat =
  at :: string
  download :: int
  upload :: int

record TemperatureHistoryPoint =
  at :: string
  cpuM :: jv
  cpuB :: jv
  sw :: jv

text \<open>The fields of the connection store that the reducer sets.\<close>

record 'c connection_store =
  status :: "'c option"
  conn_error :: "string option"
  history :: "NetworkStat list"

text \<open>The system store; \<^verbatim>\<open>schedule\<close> and the actions are in the record's extension.\<close>

record system_store =
  info :: "obj option"
  temperatureHistory :: "TemperatureHistoryPoint list"
  isLoading :: bool
  error :: "string option"

text \<open>\<^verbatim>\<open>xs.slice(-n)\<close>: the last \<open>n\<close> elements, all of them when there are fewer.\<close>

definition slice_last :: "nat \<Rightarrow> 'a list \<Rightarrow> 'a list" where
  "slice_last n xs = drop (length xs - n) xs"

text \<open>\<^verbatim>\<open>a ?? b\<close>\<close>

definition nullish_or :: "jv \<Rightarrow> jv \<Rightarrow> jv" where
  "nullish_or a b = (if nullish a then b else a)"

text \<open>The \<^verbatim>\<open>connection_status\<close> branch; \<open>now\<close> is the formatted clock reading.\<close>

definition connection_status_update ::
  "string \<Rightarrow> ('a ConnectionStatus_scheme) \<Rightarrow> ('a ConnectionStatus_scheme, 'b) connection_store_scheme
     \<Rightarrow> ('a ConnectionStatus_scheme, 'b) connection_store_scheme" where
  "connection_status_update now st state =
     (let newPoint = \<lparr>NetworkStat.at = now,
                       download = round_div (rate_down st) 1024,
                       upload = round_div (rate_up st) 1024\<rparr>
      in state\<lparr>status := Some st, conn_error := None,
               history := slice_last 59 (history state) @ [newPoint]\<rparr>)"

text \<open>The CPU temperature of a \<^verbatim>\<open>system_status\<close> message: average of the Ultra cores, or legacy cpum.\<close>

definition message_cpuM :: "obj \<Rightarrow> jv" where
  "message_cpuM systemData =
     (if \<not> nullish (field systemData ''temp_cpu0'')
      then
        (let temps = filter (\<lambda>t. \<not> nullish t)
               [field systemData ''temp_cpu0'', field systemData ''temp_cpu1'',
                field systemData ''temp_cpu2'', field systemData ''temp_cpu3'']
         in if length temps > 0 then round_mean temps else JUndefined)
      else field systemData ''temp_cpum'')"

text \<open>\<^verbatim>\<open>{ ...state.info, temp_cpu0: systemData.temp_cpu0, ... }\<close>\<close>

definition merge_info :: "obj \<Rightarrow> obj \<Rightarrow> obj" where
  "merge_info i systemData =
     i(''temp_cpu0'' \<mapsto> field systemData ''temp_cpu0'',
       ''temp_cpu1'' \<mapsto> field systemData ''temp_cpu1'',
       ''temp_cpu2'' \<mapsto> field systemData ''temp_cpu2'',
       ''temp_cpu3'' \<mapsto> field systemData ''temp_cpu3'',
       ''temp_cpum'' \<mapsto> nullish_or (field systemData ''temp_cpum'') (message_cpuM systemData),
       ''temp_cpub'' \<mapsto> field systemData ''temp_cpub'',
       ''temp_sw'' \<mapsto> field systemData ''temp_sw'',
       ''fan_rpm'' \<mapsto> field systemData ''fan_rpm'',
       ''uptime_val'' \<mapsto> nullish_or (field systemData ''uptime_val'') (field i ''uptime_val''))"

text \<open>The \<^verbatim>\<open>system_status\<close> branch.\<close>

definition system_status_update ::
  "string \<Rightarrow> obj \<Rightarrow> 'a system_store_scheme \<Rightarrow> 'a system_store_scheme" where
  "system_status_update now systemData state =
     (let newPoint = \<lparr>TemperatureHistoryPoint.at = now,
                       cpuM = message_cpuM systemData,
                       cpuB = field systemData ''temp_cpub'',
                       sw = field systemData ''temp_sw''\<rparr>;
          updatedInfo = (case info state of
                           Some i \<Rightarrow> Some (merge_info i systemData)
                         | None \<Rightarrow> None)
      in state\<lparr>info := updatedInfo,
               temperatureHistory := slice_last 59 (temperatureHistory state) @ [newPoint]\<rparr>)"

text \<open>
  A parsed message: its discriminant with its payload (none when \<^verbatim>\<open>data\<close> is falsy).
  \<open>Unhandled\<close> stands for text that does not parse and for any other discriminant.
\<close>

datatype 'c ws_message =
    connection_status "'c option"
  | system_status "obj option"
  | Unhandled

record ('c, 'b, 'a) client =
  connection :: "('c, 'b) connection_store_scheme"
  system :: "'a system_store_scheme"

text \<open>\<^verbatim>\<open>ws.onmessage\<close>\<close>

fun onmessage ::
  "string \<Rightarrow> ('c ConnectionStatus_scheme) ws_message
     \<Rightarrow> ('c ConnectionStatus_scheme, 'b, 'a) client \<Rightarrow> ('c ConnectionStatus_scheme, 'b, 'a) client" where
  "onmessage now (connection_status (Some st)) c =
     c\<lparr>connection := connection_status_update now st (connection c)\<rparr>"
| "onmessage now (system_status (Some systemData)) c =
     c\<lparr>system := system_status_update now systemData (system c)\<rparr>"
| "onmessage now _ c = c"

text \<open>
  \<^verbatim>\<open>fetchSystemInfo\<close> of the system store, after the response has arrived: the history
  point is computed from the sensors array first, from the flat fields otherwise.
\<close>

definition is_cpu_sensor :: "sensor \<Rightarrow> bool" where
  "is_cpu_sensor s =
     (startsWith (sensor_id s) ''temp_cpu'' \<or> startsWith (sensor_id s) ''cpu''
      \<or> sensor_id s = ''t1'')"

definition is_sw_sensor :: "sensor \<Rightarrow> bool" where
  "is_sw_sensor s = (sensor_id s = ''temp_sw'' \<or> sensor_id s = ''sw'' \<or> sensor_id s = ''t2'')"

definition is_cpub_sensor :: "sensor \<Rightarrow> bool" where
  "is_cpub_sensor s = (sensor_id s = ''temp_cpub'' \<or> sensor_id s = ''cpub'')"

definition found_value :: "(sensor \<Rightarrow> bool) \<Rightarrow> sensor list \<Rightarrow> jv" where
  "found_value P ss = (case find P ss of Some s \<Rightarrow> sensor_value s | None \<Rightarrow> JUndefined)"

definition sensors_of :: "obj \<Rightarrow> sensor list" where
  "sensors_of i = (case field i ''sensors'' of JArr ss \<Rightarrow> ss | _ \<Rightarrow> [])"

definition fetched_point :: "string \<Rightarrow> obj \<Rightarrow> TemperatureHistoryPoint" where
  "fetched_point now i =
     (let ss = sensors_of i;
          cpuSensors = filter is_cpu_sensor ss;
          cpuM1 = (if length cpuSensors > 0 then round_mean (map sensor_value cpuSensors)
                   else JUndefined);
          sw1 = found_value is_sw_sensor ss;
          cpuB1 = found_value is_cpub_sensor ss;
          cpuM2 = (if nullish cpuM1
                   then (if \<not> nullish (field i ''temp_cpu0'')
                         then (let temps = filter (\<lambda>t. \<not> nullish t)
                                      [field i ''temp_cpu0'', field i ''temp_cpu1'',
                                       field i ''temp_cpu2'', field i ''temp_cpu3'']
                               in if length temps > 0 then round_mean temps else JUndefined)
                         else if \<not> nullish (field i ''temp_cpum'') then field i ''temp_cpum''
                         else cpuM1)
                   else cpuM1);
          sw2 = (if nullish sw1 then field i ''temp_sw'' else sw1);
          cpuB2 = (if nullish cpuB1 then field i ''temp_cpub'' else cpuB1)
      in \<lparr>TemperatureHistoryPoint.at = now, cpuM = cpuM2, cpuB = cpuB2, sw = sw2\<rparr>)"

text \<open>What \<^verbatim>\<open>api.get\<close> gave: a response, or an exception.\<close>

datatype api_outcome =
    Response (success: bool) (result: "obj option") (error_message: "string option")
  | Thrown

definition fetch_failed :: string where
  "fetch_failed = ''Failed to fetch system info''"

text \<open>\<^verbatim>\<open>fetchSystemInfo\<close>, before the request: \<^verbatim>\<open>set({ isLoading: true, error: null })\<close>.\<close>

definition fetchSystemInfo_start :: "'a system_store_scheme \<Rightarrow> 'a system_store_scheme" where
  "fetchSystemInfo_start state = state\<lparr>isLoading := True, error := None\<rparr>"

text \<open>\<^verbatim>\<open>fetchSystemInfo\<close>, once the request has ended.\<close>

fun fetchSystemInfo :: "string \<Rightarrow> api_outcome \<Rightarrow> 'a system_store_scheme \<Rightarrow> 'a system_store_scheme" where
  "fetchSystemInfo now (Response True (Some i) e) state =
     state\<lparr>info := Some i,
           temperatureHistory := slice_last 59 (temperatureHistory state) @ [fetched_point now i],
           isLoading := False\<rparr>"
| "fetchSystemInfo now (Response ok r e) state =
     state\<lparr>isLoading := False,
           error := (case e of Some m \<Rightarrow> Some (if m \<noteq> [] then m else fetch_failed)
                     | None \<Rightarrow> Some fetch_failed)\<rparr>"
| "fetchSystemInfo now Thrown state = state\<lparr>isLoading := False, error := Some fetch_failed\<rparr>"

text \<open>
  What happens to the client: a WebSocket message arrives, a fetch starts, a fetch ends.
  The string is the clock reading taken for the new history point.
\<close>

datatype 'c client_event =
    Message string "'c ws_message"
  | FetchStarted
  | Fetched string api_outcome

fun client_step ::
  "('c ConnectionStatus_scheme, 'b, 'a) client \<Rightarrow> ('c ConnectionStatus_scheme) client_event
     \<Rightarrow> ('c ConnectionStatus_scheme, 'b, 'a) client" where
  "client_step c (Message now m) = onmessage now m c"
| "client_step c FetchStarted = c\<lparr>system := fetchSystemInfo_start (system c)\<rparr>"
| "client_step c (Fetched now r) = c\<lparr>system := fetchSystemInfo now r (system c)\<rparr>"

definition client_run ::
  "('c ConnectionStatus_scheme, 'b, 'a) client \<Rightarrow> ('c ConnectionStatus_scheme) client_event list
     \<Rightarrow> ('c ConnectionStatus_scheme, 'b, 'a) client" where
  "client_run c events = foldl client_step c events"

section \<open>Scenario inputs\<close>

text \<open>\<^verbatim>\<open>{temp_cpu0: 40, temp_cpu1: 42, temp_cpu2: 41, temp_cpu3: 43}\<close>\<close>

definition ultra_flat :: obj where
  "ultra_flat = [''temp_cpu0'' \<mapsto> JNum 40, ''temp_cpu1'' \<mapsto> JNum 42,
                 ''temp_cpu2'' \<mapsto> JNum 41, ''temp_cpu3'' \<mapsto> JNum 43]"

text \<open>The same four readings as an array-shaped \<^verbatim>\<open>sensors\<close> field.\<close>

definition ultra_array :: obj where
  "ultra_array = [''sensors'' \<mapsto> JArr
     [Sensor ''temp_cpu0'' '''' (JNum 40), Sensor ''temp_cpu1'' '''' (JNum 42),
      Sensor ''temp_cpu2'' '''' (JNum 41), Sensor ''temp_cpu3'' '''' (JNum 43)]]"

text \<open>The flat readings together with an empty array: \<^verbatim>\<open>{temp_cpu0: 40, ..., sensors: []}\<close>\<close>

definition ultra_flat_empty_array :: obj where
  "ultra_flat_empty_array = ultra_flat(''sensors'' \<mapsto> JArr [])"

text \<open>\<^verbatim>\<open>{sensors: [{id: "fan0_speed", name: "", value: 1200}]}\<close>\<close>

definition fan_in_sensors :: obj where
  "fan_in_sensors = [''sensors'' \<mapsto> JArr [Sensor ''fan0_speed'' '''' (JNum 1200)]]"

text \<open>\<^verbatim>\<open>{fans: [{id: "fan0_speed", name: "", value: 1200}]}\<close>\<close>

definition fan_in_fans :: obj where
  "fan_in_fans = [''fans'' \<mapsto> JArr [Sensor ''fan0_speed'' '''' (JNum 1200)]]"

text \<open>\<^verbatim>\<open>{sensors: [], temp_cpum: 50}\<close>\<close>

definition empty_sensors :: obj where
  "empty_sensors = [''sensors'' \<mapsto> JArr [], ''temp_cpum'' \<mapsto> JNum 50]"

text \<open>\<^verbatim>\<open>{temp_cpu1: 41, temp_cpum: 50}\<close>\<close>

definition cpu1_and_cpum :: obj where
  "cpu1_and_cpum = [''temp_cpu1'' \<mapsto> JNum 41, ''temp_cpum'' \<mapsto> JNum 50]"

text \<open>\<^verbatim>\<open>{temp_sw: 47, temp_cpu2: 41, temp_cpu0: 40, temp_cpub: 45}\<close>\<close>

definition mixed_flat :: obj where
  "mixed_flat = [''temp_sw'' \<mapsto> JNum 47, ''temp_cpu2'' \<mapsto> JNum 41,
                 ''temp_cpu0'' \<mapsto> JNum 40, ''temp_cpub'' \<mapsto> JNum 45]"

text \<open>\<^verbatim>\<open>{sensors: [{id: "probe", name: "Temperature Temperature X", value: 30}]}\<close>\<close>

definition doubly_prefixed :: obj where
  "doubly_prefixed =
     [''sensors'' \<mapsto> JArr [Sensor ''probe'' ''Temperature Temperature X'' (JNum 30)]]"

text \<open>A scheduler with an active task, and an update that keeps it enabled and clears the days.\<close>

definition running_scheduler :: scheduler where
  "running_scheduler =
     \<lparr>schedule = \<lparr>enabled = True, days = [1, 3], time = ''04:00''\<rparr>,
      task = Some ''00 04 * * 1,3'', saved = None\<rparr>"

definition clear_days :: PartialSchedule where
  "clear_days = \<lparr>enabled_given = Some True, days_given = Some [], time_given = None\<rparr>"

text \<open>A client that has just loaded, and one status message of each kind.\<close>

definition fresh_client :: "(unit ConnectionStatus_scheme, unit, unit) client" where
  "fresh_client =
     \<lparr>connection = \<lparr>status = None, conn_error = None, history = []\<rparr>,
      system = \<lparr>info = None, temperatureHistory = [], isLoading = False, error = None\<rparr>\<rparr>"

definition tick :: "(unit ConnectionStatus_scheme) client_event list" where
  "tick = [Message ''12:00:00'' (connection_status (Some \<lparr>rate_down = 2048, rate_up = 1536\<rparr>)),
           Message ''12:00:00'' (system_status (Some [''temp_cpum'' \<mapsto> JNum 50]))]"

text \<open>
  A \<^verbatim>\<open>system_status\<close> message with a core temperature and the aggregate, and one with
  neither.
\<close>

definition both_present :: obj where
  "both_present = [''temp_cpu0'' \<mapsto> JNum 40, ''temp_cpum'' \<mapsto> JNum 50]"

definition cpub_only :: obj where
  "cpub_only = [''temp_cpub'' \<mapsto> JNum 45]"

text \<open>A system store that holds a snapshot.\<close>

definition warm_info :: obj where
  "warm_info = [''temp_sw'' \<mapsto> JNum 50, ''uptime_val'' \<mapsto> JNum 3600,
                ''box_model_name'' \<mapsto> JStr ''ultra'']"

definition warm_store :: "unit system_store_scheme" where
  "warm_store =
     \<lparr>info = Some warm_info, temperatureHistory = [], isLoading = False, error = None\<rparr>"

section \<open>Notions used in the statements\<close>

text \<open>Both histories hold at most 60 points.\<close>

definition bounded :: "('c ConnectionStatus_scheme, 'b, 'a) client \<Rightarrow> bool" where
  "bounded c =
     (length (history (connection c)) \<le> 60 \<and> length (temperatureHistory (system c)) \<le> 60)"

text \<open>The keys that the \<^verbatim>\<open>system_status\<close> branch writes into the snapshot.\<close>

definition written_keys :: "string list" where
  "written_keys = [''temp_cpu0'', ''temp_cpu1'', ''temp_cpu2'', ''temp_cpu3'', ''temp_cpum'',
                   ''temp_cpub'', ''temp_sw'', ''fan_rpm'', ''uptime_val'']"

text \<open>\<^verbatim>\<open>Array.isArray\<close>\<close>

fun is_array :: "jv \<Rightarrow> bool" where
  "is_array (JArr ss) = True"
| "is_array _ = False"

text \<open>What the extraction loop writes, starting from nothing.\<close>

definition flat_writes :: "sensor list \<Rightarrow> obj" where
  "flat_writes ss = fold extract_flat ss Map.empty"

text \<open>The legacy flat temperature fields with their display names, in the order of the synthesis.\<close>

definition core_fields :: "(string \<times> string) list" where
  "core_fields = [(''temp_cpu0'', ''CPU 0''), (''temp_cpu1'', ''CPU 1''),
                  (''temp_cpu2'', ''CPU 2''), (''temp_cpu3'', ''CPU 3'')]"

definition aggregate_fields :: "(string \<times> string) list" where
  "aggregate_fields =
     [(''temp_cpum'', ''CPU''), (''temp_cpub'', ''CPU Box''), (''temp_sw'', ''Switch'')]"

text \<open>A sensors array without its display names.\<close>

definition ids_and_values :: "sensor list \<Rightarrow> (string \<times> jv) list" where
  "ids_and_values ss = map (\<lambda>s. (sensor_id s, sensor_value s)) ss"

section \<open>Evaluation rules\<close>

lemmas normalizer_defs =
  normalizeSystemInfo_def normalize_fans_def normalize_sensors_def field_def
  legacy_sensors_def push_flat_def extract_flat_def startsWith_def derive_cpum_def
  round_mean_def round_div_def normalize_sensor_def normalize_fan_def mainFan_def
  is_main_fan_def Let_def

lemmas name_defs =
  getSensorDisplayName_def getFanDisplayName_def SENSOR_NAMES_def FAN_NAMES_def
  capitalize_words_def underscores_to_spaces_def is_word_def toUpperCase_def
  lower_letters_def upper_letters_def trim_def strip_prefix_ci_def is_space_def
  temperature_fr_def temperature_en_def

section \<open>The normalizer on the two scenarios\<close>

text \<open>
  C1, as stated: for the flat input with the four core temperatures and no
  \<^verbatim>\<open>temp_cpum\<close>, the output would carry \<^verbatim>\<open>temp_cpum = 42\<close>. It does not: the output has
  no \<^verbatim>\<open>temp_cpum\<close> at all.
\<close>

theorem flat_cores_cpum_counterexample:
  "normalizeSystemInfo ultra_flat ''temp_cpum'' \<noteq> Some (JNum 42)"
  by (simp add: ultra_flat_def normalizer_defs)

text \<open>
  C1, amended: for the flat input the output has a \<^verbatim>\<open>sensors\<close> array of exactly the four
  core entries and no \<^verbatim>\<open>temp_cpum\<close>. The rounded mean 42 is derived when the input has an
  array-shaped \<^verbatim>\<open>sensors\<close> field: when the same four readings arrive in that array, and
  also when the flat readings come with an empty \<^verbatim>\<open>sensors\<close> array.
\<close>

theorem flat_cores_scenario:
  "normalizeSystemInfo ultra_flat ''temp_cpum'' = None
   \<and> normalizeSystemInfo ultra_flat ''sensors'' = Some (JArr
        [Sensor ''temp_cpu0'' ''CPU 0'' (JNum 40), Sensor ''temp_cpu1'' ''CPU 1'' (JNum 42),
         Sensor ''temp_cpu2'' ''CPU 2'' (JNum 41), Sensor ''temp_cpu3'' ''CPU 3'' (JNum 43)])
   \<and> normalizeSystemInfo ultra_array ''temp_cpum'' = Some (JNum 42)
   \<and> normalizeSystemInfo ultra_flat_empty_array ''temp_cpum'' = Some (JNum 42)
   \<and> normalizeSystemInfo ultra_flat_empty_array ''sensors'' = Some (JArr [])"
  by (simp add: ultra_flat_def ultra_array_def ultra_flat_empty_array_def normalizer_defs)

text \<open>
  C6, as stated: for the input whose \<^verbatim>\<open>sensors\<close> array holds the entry \<^verbatim>\<open>fan0_speed\<close>, the
  output would have \<^verbatim>\<open>fan_rpm = 1200\<close>. It has no \<^verbatim>\<open>fan_rpm\<close>.
\<close>

theorem fan_in_sensors_counterexample:
  "normalizeSystemInfo fan_in_sensors ''fan_rpm'' \<noteq> Some (JNum 1200)"
  by (simp add: fan_in_sensors_def normalizer_defs)

text \<open>
  C6, amended: when the entry arrives in the \<^verbatim>\<open>fans\<close> array, the output has
  \<^verbatim>\<open>fan_rpm = 1200\<close> and the fan's name comes from the fan alias table (\<^verbatim>\<open>Ventilateur 1\<close>).
  When it arrives in the \<^verbatim>\<open>sensors\<close> array, the output has neither \<^verbatim>\<open>fan_rpm\<close> nor
  \<^verbatim>\<open>fans\<close>, and the sensor's name is the cleaned-up id.
\<close>

theorem fan_scenario:
  "normalizeSystemInfo fan_in_fans ''fan_rpm'' = Some (JNum 1200)
   \<and> normalizeSystemInfo fan_in_fans ''fans''
       = Some (JArr [Sensor ''fan0_speed'' ''Ventilateur 1'' (JNum 1200)])
   \<and> map_of FAN_NAMES ''fan0_speed'' = Some ''Ventilateur 1''
   \<and> normalizeSystemInfo fan_in_sensors ''fan_rpm'' = None
   \<and> normalizeSystemInfo fan_in_sensors ''fans'' = None
   \<and> normalizeSystemInfo fan_in_sensors ''sensors''
       = Some (JArr [Sensor ''fan0_speed'' ''Fan0 Speed'' (JNum 1200)])"
  by (simp add: fan_in_fans_def fan_in_sensors_def normalizer_defs name_defs)

section \<open>The reboot scheduler\<close>

text \<open>
  C8: when the merged record has \<^verbatim>\<open>enabled: true\<close> and \<^verbatim>\<open>days: []\<close>, \<^verbatim>\<open>updateSchedule\<close>
  returns the merged record, keeps it in memory, writes it to the schedule file (when the
  write succeeds; a failed write is only logged) and leaves no active task, whatever task
  was active before and whatever \<^verbatim>\<open>cron.validate\<close> answers.
\<close>

theorem updateSchedule_enabled_without_days:
  assumes "enabled (merge_schedule (schedule s) newSchedule)"
    and "days (merge_schedule (schedule s) newSchedule) = []"
  shows "fst (updateSchedule validate write_ok newSchedule s)
           = merge_schedule (schedule s) newSchedule
       \<and> schedule (snd (updateSchedule validate write_ok newSchedule s))
           = merge_schedule (schedule s) newSchedule
       \<and> saved (snd (updateSchedule validate write_ok newSchedule s))
           = (if write_ok then Some (merge_schedule (schedule s) newSchedule) else saved s)
       \<and> task (snd (updateSchedule validate write_ok newSchedule s)) = None"
  using assms by (simp add: updateSchedule_def updateCronJob_def saveSchedule_def Let_def)

theorem updateSchedule_enabled_without_days_witness:
  "enabled (merge_schedule (schedule running_scheduler) clear_days)
   \<and> days (merge_schedule (schedule running_scheduler) clear_days) = []
   \<and> fst (updateSchedule (\<lambda>e. True) True clear_days running_scheduler)
       = \<lparr>enabled = True, days = [], time = ''04:00''\<rparr>
   \<and> saved (snd (updateSchedule (\<lambda>e. True) True clear_days running_scheduler))
       = Some \<lparr>enabled = True, days = [], time = ''04:00''\<rparr>
   \<and> task (snd (updateSchedule (\<lambda>e. True) True clear_days running_scheduler)) = None"
  using updateSchedule_enabled_without_days [of running_scheduler clear_days "\<lambda>e. True" True]
  by (simp add: running_scheduler_def clear_days_def merge_schedule_def)

section \<open>The history buffers of the client\<close>

lemma slice_last_evicts:
  "length xs \<le> 60 \<Longrightarrow> slice_last 59 xs = (if length xs = 60 then tl xs else xs)"
  by (cases xs) (auto simp: slice_last_def)

lemma onmessage_bounded: "bounded c \<Longrightarrow> bounded (onmessage now m c)"
  by (cases "(now, m, c)" rule: onmessage.cases)
     (auto simp: bounded_def connection_status_update_def system_status_update_def
        slice_last_def Let_def)

lemma fetchSystemInfo_bounded:
  "length (temperatureHistory st) \<le> 60
   \<Longrightarrow> length (temperatureHistory (fetchSystemInfo now r st)) \<le> 60"
  by (cases "(now, r, st)" rule: fetchSystemInfo.cases) (auto simp: slice_last_def)

lemma client_step_bounded:
  assumes "bounded c"
  shows "bounded (client_step c e)"
proof (cases e)
  case (Message now m)
  with assms show ?thesis by (simp add: onmessage_bounded)
next
  case FetchStarted
  with assms show ?thesis by (simp add: bounded_def fetchSystemInfo_start_def)
next
  case (Fetched now r)
  with assms show ?thesis by (simp add: bounded_def fetchSystemInfo_bounded)
qed

lemma client_run_bounded: "bounded c \<Longrightarrow> bounded (client_run c events)"
  unfolding client_run_def
  by (induction events arbitrary: c) (simp_all add: client_step_bounded)

text \<open>
  C9: from a client whose two histories hold at most 60 points (both are empty after a
  load), any sequence of messages and fetches leaves both at 60 points or fewer. The next
  point goes to the end; when the history is full it is the first, oldest point that is
  dropped, and the others keep their order.
\<close>

theorem history_ring_buffers:
  assumes "length (history (connection c)) \<le> 60"
    and "length (temperatureHistory (system c)) \<le> 60"
  shows "let c' = client_run c events;
             h = history (connection c');
             t = temperatureHistory (system c')
         in length h \<le> 60 \<and> length t \<le> 60
          \<and> history (connection (onmessage now (connection_status (Some st)) c'))
              = (if length h = 60 then tl h else h)
                @ [\<lparr>NetworkStat.at = now, download = round_div (rate_down st) 1024,
                     upload = round_div (rate_up st) 1024\<rparr>]
          \<and> temperatureHistory (system (onmessage now (system_status (Some systemData)) c'))
              = (if length t = 60 then tl t else t)
                @ [\<lparr>TemperatureHistoryPoint.at = now, cpuM = message_cpuM systemData,
                     cpuB = field systemData ''temp_cpub'', sw = field systemData ''temp_sw''\<rparr>]
          \<and> temperatureHistory (fetchSystemInfo now (Response True (Some i) e) (system c'))
              = (if length t = 60 then tl t else t) @ [fetched_point now i]"
proof -
  have "bounded c" using assms by (simp add: bounded_def)
  then have "bounded (client_run c events)" by (rule client_run_bounded)
  then show ?thesis
    by (simp add: bounded_def Let_def connection_status_update_def system_status_update_def
        slice_last_evicts)
qed

theorem history_ring_buffers_witness:
  "length (history (connection fresh_client)) \<le> 60
   \<and> length (temperatureHistory (system fresh_client)) \<le> 60
   \<and> length (history (connection (client_run fresh_client (concat (replicate 100 tick))))) \<le> 60
   \<and> length (temperatureHistory (system (client_run fresh_client (concat (replicate 100 tick)))))
       \<le> 60"
  using history_ring_buffers [of fresh_client "concat (replicate 100 tick)"]
  by (simp add: fresh_client_def Let_def)

section \<open>The snapshot of the system store\<close>

text \<open>
  C10: when the store holds no snapshot (\<^verbatim>\<open>info\<close> is \<^verbatim>\<open>null\<close>), a \<^verbatim>\<open>system_status\<close>
  message leaves \<^verbatim>\<open>info\<close> \<^verbatim>\<open>null\<close> and still appends one point to the temperature history.
\<close>

theorem no_snapshot_stays_null:
  assumes "info (system c) = None"
  shows "info (system (onmessage now (system_status (Some systemData)) c)) = None
       \<and> temperatureHistory (system (onmessage now (system_status (Some systemData)) c))
           = slice_last 59 (temperatureHistory (system c))
             @ [\<lparr>TemperatureHistoryPoint.at = now, cpuM = message_cpuM systemData,
                  cpuB = field systemData ''temp_cpub'', sw = field systemData ''temp_sw''\<rparr>]"
  using assms by (simp add: system_status_update_def Let_def)

theorem no_snapshot_stays_null_witness:
  "info (system fresh_client) = None
   \<and> info (system (onmessage ''12:00:00'' (system_status (Some [''temp_cpum'' \<mapsto> JNum 50]))
        fresh_client)) = None
   \<and> temperatureHistory (system (onmessage ''12:00:00''
        (system_status (Some [''temp_cpum'' \<mapsto> JNum 50])) fresh_client))
       = [\<lparr>TemperatureHistoryPoint.at = ''12:00:00'', cpuM = JNum 50,
            cpuB = JUndefined, sw = JUndefined\<rparr>]"
  using no_snapshot_stays_null [of fresh_client "''12:00:00''" "[''temp_cpum'' \<mapsto> JNum 50]"]
  by (simp add: fresh_client_def slice_last_def message_cpuM_def field_def)

section \<open>The reducer's main-CPU aggregate\<close>

text \<open>
  C4, as stated: the reducer would prefer a present \<^verbatim>\<open>temp_cpum\<close>. For a message with
  \<^verbatim>\<open>temp_cpu0 = 40\<close> and \<^verbatim>\<open>temp_cpum = 50\<close> the aggregate of the history point is the
  mean of the cores, not the \<^verbatim>\<open>temp_cpum\<close> that is present.
\<close>

theorem reducer_prefers_cores_counterexample:
  "\<not> nullish (field both_present ''temp_cpum'')
   \<and> cpuM (last (temperatureHistory (system_status_update ''12:00:00'' both_present warm_store)))
       \<noteq> field both_present ''temp_cpum''"
  by (simp add: both_present_def warm_store_def warm_info_def system_status_update_def message_cpuM_def
      slice_last_def field_def round_mean_def round_div_def Let_def)

lemma message_cpuM_eq:
  "message_cpuM systemData =
     (if \<not> nullish (field systemData ''temp_cpu0'')
      then round_mean (filter (\<lambda>t. \<not> nullish t)
             [field systemData ''temp_cpu0'', field systemData ''temp_cpu1'',
              field systemData ''temp_cpu2'', field systemData ''temp_cpu3''])
      else field systemData ''temp_cpum'')"
  by (simp add: message_cpuM_def Let_def)

lemma snapshot_cpum_eq:
  "nullish_or (field systemData ''temp_cpum'') (message_cpuM systemData)
     = field (derive_cpum systemData) ''temp_cpum''"
  by (simp add: nullish_or_def message_cpuM_def derive_cpum_def Let_def field_def)

text \<open>
  C4, amended: the aggregate of the history point is the rounded mean of the available
  core values whenever \<^verbatim>\<open>temp_cpu0\<close> is present, and the message's \<^verbatim>\<open>temp_cpum\<close> only
  when \<^verbatim>\<open>temp_cpu0\<close> is absent. The \<^verbatim>\<open>temp_cpum\<close> of the merged snapshot (when there is a
  snapshot) follows the normalizer's rule: a present \<^verbatim>\<open>temp_cpum\<close> is kept, otherwise it
  is that aggregate.
\<close>

theorem cpu_aggregate_priority:
  "cpuM (last (temperatureHistory (system_status_update now systemData state)))
     = (if \<not> nullish (field systemData ''temp_cpu0'')
        then round_mean (filter (\<lambda>t. \<not> nullish t)
               [field systemData ''temp_cpu0'', field systemData ''temp_cpu1'',
                field systemData ''temp_cpu2'', field systemData ''temp_cpu3''])
        else field systemData ''temp_cpum'')
   \<and> (\<forall>i. info state = Some i \<longrightarrow>
        (\<exists>i'. info (system_status_update now systemData state) = Some i'
           \<and> field i' ''temp_cpum''
               = (if \<not> nullish (field systemData ''temp_cpum'') then field systemData ''temp_cpum''
                  else cpuM (last (temperatureHistory (system_status_update now systemData state))))
           \<and> field i' ''temp_cpum'' = field (derive_cpum systemData) ''temp_cpum''))"
proof -
  have a: "cpuM (last (temperatureHistory (system_status_update now systemData state)))
             = message_cpuM systemData"
    by (simp add: system_status_update_def Let_def)
  have b: "field (merge_info i systemData) ''temp_cpum''
             = nullish_or (field systemData ''temp_cpum'') (message_cpuM systemData)" for i
    by (simp add: merge_info_def field_def)
  have c: "info state = Some i \<Longrightarrow>
             info (system_status_update now systemData state) = Some (merge_info i systemData)" for i
    by (simp add: system_status_update_def Let_def)
  have d: "nullish_or (field systemData ''temp_cpum'') (message_cpuM systemData)
             = (if \<not> nullish (field systemData ''temp_cpum'') then field systemData ''temp_cpum''
                else message_cpuM systemData)"
    by (simp add: nullish_or_def)
  have first: "cpuM (last (temperatureHistory (system_status_update now systemData state)))
     = (if \<not> nullish (field systemData ''temp_cpu0'')
        then round_mean (filter (\<lambda>t. \<not> nullish t)
               [field systemData ''temp_cpu0'', field systemData ''temp_cpu1'',
                field systemData ''temp_cpu2'', field systemData ''temp_cpu3''])
        else field systemData ''temp_cpum'')"
    unfolding a by (rule message_cpuM_eq)
  have second: "\<exists>i'. info (system_status_update now systemData state) = Some i'
           \<and> field i' ''temp_cpum''
               = (if \<not> nullish (field systemData ''temp_cpum'') then field systemData ''temp_cpum''
                  else cpuM (last (temperatureHistory (system_status_update now systemData state))))
           \<and> field i' ''temp_cpum'' = field (derive_cpum systemData) ''temp_cpum''"
    if "info state = Some i" for i
  proof (intro exI conjI)
    show "info (system_status_update now systemData state) = Some (merge_info i systemData)"
      using that by (rule c)
    show "field (merge_info i systemData) ''temp_cpum''
            = (if \<not> nullish (field systemData ''temp_cpum'') then field systemData ''temp_cpum''
               else cpuM (last (temperatureHistory (system_status_update now systemData state))))"
      unfolding a b d ..
    show "field (merge_info i systemData) ''temp_cpum'' = field (derive_cpum systemData) ''temp_cpum''"
      unfolding b by (rule snapshot_cpum_eq)
  qed
  from first second show ?thesis by blast
qed

theorem cpu_aggregate_priority_witness:
  "info warm_store \<noteq> None
   \<and> cpuM (last (temperatureHistory (system_status_update ''12:00:00'' both_present warm_store))) = JNum 40
   \<and> field (the (info (system_status_update ''12:00:00'' both_present warm_store))) ''temp_cpum'' = JNum 50"
  using cpu_aggregate_priority [of "''12:00:00''" both_present warm_store]
  by (auto simp: warm_store_def warm_info_def both_present_def field_def round_mean_def round_div_def)

section \<open>The reducer's merge into the snapshot\<close>

text \<open>
  C5, as stated: a field absent from the message would keep its previous value. A snapshot
  with \<^verbatim>\<open>temp_sw = 50\<close>, merged with a message that has no \<^verbatim>\<open>temp_sw\<close>, ends with
  \<^verbatim>\<open>temp_sw\<close> undefined.
\<close>

theorem absent_field_cleared_counterexample:
  "cpub_only ''temp_sw'' = None
   \<and> field (the (info warm_store)) ''temp_sw'' = JNum 50
   \<and> field (the (info (system_status_update ''12:00:00'' cpub_only warm_store))) ''temp_sw''
       = JUndefined"
  by (simp add: cpub_only_def warm_store_def warm_info_def system_status_update_def
      merge_info_def field_def Let_def)

lemma merge_info_other: "k \<notin> set written_keys \<Longrightarrow> merge_info i systemData k = i k"
  by (simp add: merge_info_def written_keys_def)

lemma merge_info_uptime:
  "field (merge_info i systemData) ''uptime_val''
     = nullish_or (field systemData ''uptime_val'') (field i ''uptime_val'')"
  by (simp add: merge_info_def field_def)

lemma merge_info_cpum:
  "merge_info i systemData ''temp_cpum''
     = Some (nullish_or (field systemData ''temp_cpum'') (message_cpuM systemData))"
  by (simp add: merge_info_def)

lemma merge_info_overwritten:
  "k \<in> set [''temp_cpu0'', ''temp_cpu1'', ''temp_cpu2'', ''temp_cpu3'',
             ''temp_cpub'', ''temp_sw'', ''fan_rpm'']
   \<Longrightarrow> merge_info i systemData k = Some (field systemData k)"
  by (auto simp: merge_info_def)

text \<open>
  C5, amended: merging a message into a snapshot keeps every field other than the nine
  the reducer writes; \<^verbatim>\<open>uptime_val\<close> keeps its previous value when the message has none;
  \<^verbatim>\<open>temp_cpu0\<close> to \<^verbatim>\<open>temp_cpu3\<close>, \<^verbatim>\<open>temp_cpub\<close>, \<^verbatim>\<open>temp_sw\<close> and \<^verbatim>\<open>fan_rpm\<close> take the message's
  value, undefined when the message lacks the field; \<^verbatim>\<open>temp_cpum\<close> takes the message's
  value or else the recomputed aggregate.
\<close>

theorem snapshot_merge:
  assumes "info state = Some i"
  shows "\<exists>i'. info (system_status_update now systemData state) = Some i'
     \<and> (\<forall>k. k \<notin> set written_keys \<longrightarrow> i' k = i k)
     \<and> (nullish (field systemData ''uptime_val'') \<longrightarrow> field i' ''uptime_val'' = field i ''uptime_val'')
     \<and> (\<forall>k \<in> set [''temp_cpu0'', ''temp_cpu1'', ''temp_cpu2'', ''temp_cpu3'',
                    ''temp_cpub'', ''temp_sw'', ''fan_rpm'']. i' k = Some (field systemData k))
     \<and> i' ''temp_cpum'' = Some (nullish_or (field systemData ''temp_cpum'') (message_cpuM systemData))"
proof (intro exI conjI allI impI ballI)
  show "info (system_status_update now systemData state) = Some (merge_info i systemData)"
    using assms by (simp add: system_status_update_def Let_def)
  show "merge_info i systemData k = i k" if "k \<notin> set written_keys" for k
    using that by (rule merge_info_other)
  show "field (merge_info i systemData) ''uptime_val'' = field i ''uptime_val''"
    if "nullish (field systemData ''uptime_val'')"
    using that by (simp add: merge_info_uptime nullish_or_def)
  show "merge_info i systemData k = Some (field systemData k)"
    if "k \<in> set [''temp_cpu0'', ''temp_cpu1'', ''temp_cpu2'', ''temp_cpu3'',
                   ''temp_cpub'', ''temp_sw'', ''fan_rpm'']" for k
    using that by (rule merge_info_overwritten)
  show "merge_info i systemData ''temp_cpum''
          = Some (nullish_or (field systemData ''temp_cpum'') (message_cpuM systemData))"
    by (rule merge_info_cpum)
qed

theorem snapshot_merge_witness:
  "info warm_store = Some warm_info
   \<and> (\<exists>i'. info (system_status_update ''12:00:00'' cpub_only warm_store) = Some i'
          \<and> i' ''box_model_name'' = Some (JStr ''ultra'')
          \<and> field i' ''uptime_val'' = JNum 3600
          \<and> i' ''temp_cpub'' = Some (JNum 45)
          \<and> i' ''temp_sw'' = Some JUndefined)"
proof -
  have h: "info warm_store = Some warm_info"
    by (simp add: warm_store_def)
  from snapshot_merge [OF h, of "''12:00:00''" cpub_only]
  obtain i' where i': "info (system_status_update ''12:00:00'' cpub_only warm_store) = Some i'"
    and other: "\<forall>k. k \<notin> set written_keys \<longrightarrow> i' k = warm_info k"
    and uptime: "nullish (field cpub_only ''uptime_val'')
                 \<longrightarrow> field i' ''uptime_val'' = field warm_info ''uptime_val''"
    and written: "\<forall>k \<in> set [''temp_cpu0'', ''temp_cpu1'', ''temp_cpu2'', ''temp_cpu3'',
                    ''temp_cpub'', ''temp_sw'', ''fan_rpm'']. i' k = Some (field cpub_only k)"
    by blast
  have "i' ''box_model_name'' = Some (JStr ''ultra'')"
    using other by (simp add: written_keys_def warm_info_def)
  moreover have "field i' ''uptime_val'' = JNum 3600"
    using uptime by (simp add: cpub_only_def warm_info_def field_def)
  moreover have "i' ''temp_cpub'' = Some (JNum 45)"
    using written by (simp add: cpub_only_def field_def)
  moreover have "i' ''temp_sw'' = Some JUndefined"
    using written by (simp add: cpub_only_def field_def)
  ultimately show ?thesis using h i' by blast
qed

section \<open>The normalizer, key by key\<close>

subsection \<open>The extraction loop\<close>

lemma extract_flat_add: "extract_flat s r = r ++ extract_flat s Map.empty"
  by (simp add: extract_flat_def Let_def)

lemma fold_extract_flat_add: "fold extract_flat ss r = r ++ flat_writes ss"
proof (induction ss arbitrary: r)
  case Nil
  show ?case by (simp add: flat_writes_def)
next
  case (Cons s ss)
  have "fold extract_flat (s # ss) r = extract_flat s r ++ flat_writes ss"
    by (simp add: Cons.IH)
  also have "\<dots> = (r ++ extract_flat s Map.empty) ++ flat_writes ss"
    by (subst extract_flat_add) simp
  also have "\<dots> = r ++ (extract_flat s Map.empty ++ flat_writes ss)"
    by simp
  also have "extract_flat s Map.empty ++ flat_writes ss = flat_writes (s # ss)"
    using Cons.IH [of "extract_flat s Map.empty"] by (simp add: flat_writes_def)
  finally show ?case .
qed

lemma extract_flat_normalize_sensor: "extract_flat (normalize_sensor s) = extract_flat s"
  by (rule ext) (simp add: extract_flat_def normalize_sensor_def)

lemma flat_writes_normalize: "flat_writes (map normalize_sensor ss) = flat_writes ss"
  by (simp add: flat_writes_def fold_map comp_def extract_flat_normalize_sensor)

lemma extract_flat_other: "\<not> startsWith k ''temp_'' \<Longrightarrow> extract_flat s r k = r k"
  by (auto simp: extract_flat_def Let_def startsWith_def)

lemma flat_writes_other: "\<not> startsWith k ''temp_'' \<Longrightarrow> flat_writes ss k = None"
  unfolding flat_writes_def
proof (induction ss rule: rev_induct)
  case Nil
  show ?case by simp
next
  case (snoc s ss)
  then show ?case by (simp add: extract_flat_other)
qed

subsection \<open>The derived aggregate\<close>

lemma round_mean_not_nullish: "\<not> nullish (round_mean ts)"
  by (simp add: round_mean_def split: option.split)

lemma derive_cpum_other: "k \<noteq> ''temp_cpum'' \<Longrightarrow> derive_cpum r k = r k"
  by (simp add: derive_cpum_def Let_def)

lemma derive_cpum_cpum:
  "derive_cpum r ''temp_cpum'' =
     (if \<not> nullish (field r ''temp_cpu0'') \<and> nullish (field r ''temp_cpum'')
      then Some (round_mean (filter (\<lambda>t. \<not> nullish t)
             [field r ''temp_cpu0'', field r ''temp_cpu1'',
              field r ''temp_cpu2'', field r ''temp_cpu3'']))
      else r ''temp_cpum'')"
  by (simp add: derive_cpum_def Let_def)

subsection \<open>The fans half\<close>

lemma normalize_fans_other:
  "k \<noteq> ''fans'' \<Longrightarrow> k \<noteq> ''fan_rpm'' \<Longrightarrow> normalize_fans data r k = r k"
  by (simp add: normalize_fans_def Let_def split: jv.split option.split)

lemma normalize_fans_fans:
  "normalize_fans data r ''fans'' =
     (case field data ''fans'' of
        JArr fs \<Rightarrow> Some (JArr (map normalize_fan fs))
      | _ \<Rightarrow> if \<not> nullish (field data ''fan_rpm'')
             then Some (JArr [Sensor ''fan_rpm'' ''Ventilateur'' (field data ''fan_rpm'')])
             else r ''fans'')"
  by (simp add: normalize_fans_def Let_def split: jv.split option.split)

lemma normalize_fans_fan_rpm:
  "normalize_fans data r ''fan_rpm'' =
     (case field data ''fans'' of
        JArr fs \<Rightarrow> (case mainFan fs of Some f \<Rightarrow> Some (sensor_value f) | None \<Rightarrow> r ''fan_rpm'')
      | _ \<Rightarrow> r ''fan_rpm'')"
  by (simp add: normalize_fans_def Let_def split: jv.split option.split)

subsection \<open>The sensors half\<close>

lemma normalize_sensors_array:
  "field data ''sensors'' = JArr ss \<Longrightarrow>
   normalize_sensors data r =
     derive_cpum (r(''sensors'' \<mapsto> JArr (map normalize_sensor ss)) ++ flat_writes ss)"
  by (simp add: normalize_sensors_def fold_extract_flat_add)

lemma normalize_sensors_legacy:
  "\<not> is_array (field data ''sensors'') \<Longrightarrow>
   normalize_sensors data r =
     (if legacy_sensors data = [] then r else r(''sensors'' \<mapsto> JArr (legacy_sensors data)))"
  by (cases "field data ''sensors''") (simp_all add: normalize_sensors_def Let_def)

lemma normalize_sensors_other:
  "k \<noteq> ''sensors'' \<Longrightarrow> \<not> startsWith k ''temp_'' \<Longrightarrow> normalize_sensors data r k = r k"
proof (cases "field data ''sensors''")
  case (JArr ss)
  assume k: "k \<noteq> ''sensors''" "\<not> startsWith k ''temp_''"
  then have "k \<noteq> ''temp_cpum''" by (auto simp: startsWith_def)
  with k show ?thesis
    by (simp add: normalize_sensors_array [OF JArr] derive_cpum_other map_add_def flat_writes_other)
qed (simp_all add: normalize_sensors_def Let_def)

lemma normalize_sensors_sensors:
  "normalize_sensors data r ''sensors'' =
     (case field data ''sensors'' of
        JArr ss \<Rightarrow> Some (JArr (map normalize_sensor ss))
      | _ \<Rightarrow> if legacy_sensors data = [] then r ''sensors'' else Some (JArr (legacy_sensors data)))"
proof (cases "field data ''sensors''")
  case (JArr ss)
  have "flat_writes ss ''sensors'' = None"
    by (rule flat_writes_other) (simp add: startsWith_def)
  then show ?thesis
    by (simp add: normalize_sensors_array [OF JArr] JArr derive_cpum_other map_add_def)
qed (simp_all add: normalize_sensors_def Let_def)

lemma normalizeSystemInfo_sensors:
  "normalizeSystemInfo data ''sensors'' =
     (case field data ''sensors'' of
        JArr ss \<Rightarrow> Some (JArr (map normalize_sensor ss))
      | _ \<Rightarrow> if legacy_sensors data = [] then data ''sensors''
             else Some (JArr (legacy_sensors data)))"
  by (simp add: normalizeSystemInfo_def normalize_fans_other normalize_sensors_sensors)

lemma normalizeSystemInfo_fans:
  "normalizeSystemInfo data ''fans'' =
     (case field data ''fans'' of
        JArr fs \<Rightarrow> Some (JArr (map normalize_fan fs))
      | _ \<Rightarrow> if \<not> nullish (field data ''fan_rpm'')
             then Some (JArr [Sensor ''fan_rpm'' ''Ventilateur'' (field data ''fan_rpm'')])
             else data ''fans'')"
proof -
  have "normalize_sensors data data ''fans'' = data ''fans''"
    by (simp add: normalize_sensors_other startsWith_def)
  then show ?thesis
    by (simp add: normalizeSystemInfo_def normalize_fans_fans split: jv.split)
qed

lemma normalizeSystemInfo_fan_rpm:
  "normalizeSystemInfo data ''fan_rpm'' =
     (case field data ''fans'' of
        JArr fs \<Rightarrow> (case mainFan fs of Some f \<Rightarrow> Some (sensor_value f) | None \<Rightarrow> data ''fan_rpm'')
      | _ \<Rightarrow> data ''fan_rpm'')"
proof -
  have "normalize_sensors data data ''fan_rpm'' = data ''fan_rpm''"
    by (simp add: normalize_sensors_other startsWith_def)
  then show ?thesis
    by (simp add: normalizeSystemInfo_def normalize_fans_fan_rpm split: jv.split option.split)
qed

lemma legacy_sensors_empty:
  "legacy_sensors data = [] \<longleftrightarrow>
     nullish (field data ''temp_cpu0'') \<and> nullish (field data ''temp_cpum'')
     \<and> nullish (field data ''temp_cpub'') \<and> nullish (field data ''temp_sw'')"
  by (auto simp: legacy_sensors_def push_flat_def)

lemma flat_fields_in_table:
  "\<forall>(k, n) \<in> set (core_fields @ aggregate_fields). map_of SENSOR_NAMES k = Some n"
  by (simp add: core_fields_def aggregate_fields_def SENSOR_NAMES_def)

lemma flat_fields_named:
  assumes "(k, n) \<in> set (core_fields @ aggregate_fields)"
  shows "getSensorDisplayName k original = n"
proof -
  from assms flat_fields_in_table have "map_of SENSOR_NAMES k = Some n" by blast
  then show ?thesis by (simp add: getSensorDisplayName_def)
qed

lemma legacy_sensors_filter:
  "legacy_sensors data =
     map (\<lambda>(k, n). Sensor k n (field data k))
       (filter (\<lambda>(k, n). \<not> nullish (field data k))
          ((if \<not> nullish (field data ''temp_cpu0'') then core_fields else []) @ aggregate_fields))"
  by (simp add: legacy_sensors_def push_flat_def core_fields_def aggregate_fields_def)

lemma sensors_array_kept:
  "field data ''sensors'' = JArr ss \<Longrightarrow>
   normalizeSystemInfo data ''sensors'' = Some (JArr (map normalize_sensor ss))"
  by (simp add: normalizeSystemInfo_sensors)

lemma sensors_legacy:
  "\<not> is_array (field data ''sensors'') \<Longrightarrow>
   normalizeSystemInfo data ''sensors'' =
     (if legacy_sensors data = [] then data ''sensors'' else Some (JArr (legacy_sensors data)))"
  by (cases "field data ''sensors''") (simp_all add: normalizeSystemInfo_sensors)

lemma fans_array_kept:
  "field data ''fans'' = JArr fs \<Longrightarrow>
   normalizeSystemInfo data ''fans'' = Some (JArr (map normalize_fan fs))"
  by (simp add: normalizeSystemInfo_fans)

lemma fans_legacy:
  "\<not> is_array (field data ''fans'') \<Longrightarrow>
   normalizeSystemInfo data ''fans'' =
     (if \<not> nullish (field data ''fan_rpm'')
      then Some (JArr [Sensor ''fan_rpm'' ''Ventilateur'' (field data ''fan_rpm'')])
      else data ''fans'')"
  by (cases "field data ''fans''") (simp_all add: normalizeSystemInfo_fans)

lemma field_array: "field data k = JArr ss \<longleftrightarrow> data k = Some (JArr ss)"
  by (simp add: field_def split: option.split)

lemma empty_sensors_from_input:
  assumes "normalizeSystemInfo data ''sensors'' = Some (JArr [])"
  shows "data ''sensors'' = Some (JArr [])"
proof (cases "is_array (field data ''sensors'')")
  case True
  then obtain ss where ss: "field data ''sensors'' = JArr ss"
    by (cases "field data ''sensors''") simp_all
  with assms have "ss = []" by (simp add: sensors_array_kept)
  with ss show ?thesis by (simp add: field_array)
next
  case False
  with assms show ?thesis by (simp add: sensors_legacy split: if_splits)
qed

lemma empty_fans_from_input:
  assumes "normalizeSystemInfo data ''fans'' = Some (JArr [])"
  shows "data ''fans'' = Some (JArr [])"
proof (cases "is_array (field data ''fans'')")
  case True
  then obtain fs where fs: "field data ''fans'' = JArr fs"
    by (cases "field data ''fans''") simp_all
  with assms have "fs = []" by (simp add: fans_array_kept)
  with fs show ?thesis by (simp add: field_array)
next
  case False
  with assms show ?thesis by (simp add: fans_legacy split: if_splits)
qed

section \<open>Empty arrays\<close>

text \<open>
  C2, as stated: the output would never contain an empty \<^verbatim>\<open>sensors\<close> array. For the input
  \<^verbatim>\<open>{sensors: [], temp_cpum: 50}\<close> it does, although a temperature was given.
\<close>

theorem empty_sensors_counterexample:
  "normalizeSystemInfo empty_sensors ''sensors'' = Some (JArr [])"
  by (simp add: empty_sensors_def normalizer_defs)

text \<open>
  C2, amended: the output holds an empty \<^verbatim>\<open>sensors\<close> (\<^verbatim>\<open>fans\<close>) array only when the input
  held one: an input array gives an output array of the same length. Without an input
  array, the array is synthesized with at least one element when \<^verbatim>\<open>temp_cpu0\<close>,
  \<^verbatim>\<open>temp_cpum\<close>, \<^verbatim>\<open>temp_cpub\<close> or \<^verbatim>\<open>temp_sw\<close> (for fans: \<^verbatim>\<open>fan_rpm\<close>) is present, and the key
  is left as the input had it (absent when it was absent) otherwise.
\<close>

theorem arrays_never_emptied:
  "(normalizeSystemInfo data ''sensors'' = Some (JArr []) \<longrightarrow> data ''sensors'' = Some (JArr []))
   \<and> (normalizeSystemInfo data ''fans'' = Some (JArr []) \<longrightarrow> data ''fans'' = Some (JArr []))
   \<and> (\<forall>ss. field data ''sensors'' = JArr ss \<longrightarrow>
         (\<exists>ss'. normalizeSystemInfo data ''sensors'' = Some (JArr ss') \<and> length ss' = length ss))
   \<and> (\<forall>fs. field data ''fans'' = JArr fs \<longrightarrow>
         (\<exists>fs'. normalizeSystemInfo data ''fans'' = Some (JArr fs') \<and> length fs' = length fs))
   \<and> (\<not> is_array (field data ''sensors'') \<longrightarrow>
         (if nullish (field data ''temp_cpu0'') \<and> nullish (field data ''temp_cpum'')
             \<and> nullish (field data ''temp_cpub'') \<and> nullish (field data ''temp_sw'')
          then normalizeSystemInfo data ''sensors'' = data ''sensors''
          else \<exists>ss'. normalizeSystemInfo data ''sensors'' = Some (JArr ss') \<and> ss' \<noteq> []))
   \<and> (\<not> is_array (field data ''fans'') \<longrightarrow>
         (if nullish (field data ''fan_rpm'')
          then normalizeSystemInfo data ''fans'' = data ''fans''
          else \<exists>fs'. normalizeSystemInfo data ''fans'' = Some (JArr fs') \<and> length fs' = 1))"
proof (intro conjI impI allI)
  show "data ''sensors'' = Some (JArr [])" if "normalizeSystemInfo data ''sensors'' = Some (JArr [])"
    using that by (rule empty_sensors_from_input)
  show "data ''fans'' = Some (JArr [])" if "normalizeSystemInfo data ''fans'' = Some (JArr [])"
    using that by (rule empty_fans_from_input)
  show "\<exists>ss'. normalizeSystemInfo data ''sensors'' = Some (JArr ss') \<and> length ss' = length ss"
    if "field data ''sensors'' = JArr ss" for ss
    using that by (simp add: sensors_array_kept)
  show "\<exists>fs'. normalizeSystemInfo data ''fans'' = Some (JArr fs') \<and> length fs' = length fs"
    if "field data ''fans'' = JArr fs" for fs
    using that by (simp add: fans_array_kept)
  show "if nullish (field data ''temp_cpu0'') \<and> nullish (field data ''temp_cpum'')
             \<and> nullish (field data ''temp_cpub'') \<and> nullish (field data ''temp_sw'')
          then normalizeSystemInfo data ''sensors'' = data ''sensors''
          else \<exists>ss'. normalizeSystemInfo data ''sensors'' = Some (JArr ss') \<and> ss' \<noteq> []"
    if "\<not> is_array (field data ''sensors'')"
    using that legacy_sensors_empty [of data] by (simp add: sensors_legacy)
  show "if nullish (field data ''fan_rpm'')
          then normalizeSystemInfo data ''fans'' = data ''fans''
          else \<exists>fs'. normalizeSystemInfo data ''fans'' = Some (JArr fs') \<and> length fs' = 1"
    if "\<not> is_array (field data ''fans'')"
    using that by (simp add: fans_legacy)
qed

theorem arrays_never_emptied_witness:
  "\<not> is_array (field ultra_flat ''sensors'')
   \<and> (\<exists>ss'. normalizeSystemInfo ultra_flat ''sensors'' = Some (JArr ss') \<and> ss' \<noteq> [])
   \<and> \<not> is_array (field ultra_flat ''fans'')
   \<and> normalizeSystemInfo ultra_flat ''fans'' = None
   \<and> field fan_in_fans ''fans'' = JArr [Sensor ''fan0_speed'' '''' (JNum 1200)]
   \<and> (\<exists>fs'. normalizeSystemInfo fan_in_fans ''fans'' = Some (JArr fs') \<and> length fs' = 1)"
proof -
  have s: "\<not> is_array (field ultra_flat ''sensors'')"
    and f: "\<not> is_array (field ultra_flat ''fans'')"
    and a: "field fan_in_fans ''fans'' = JArr [Sensor ''fan0_speed'' '''' (JNum 1200)]"
    by (simp_all add: ultra_flat_def fan_in_fans_def field_def)
  from arrays_never_emptied [of ultra_flat] s
  have "\<exists>ss'. normalizeSystemInfo ultra_flat ''sensors'' = Some (JArr ss') \<and> ss' \<noteq> []"
    by (simp add: ultra_flat_def field_def)
  moreover from arrays_never_emptied [of ultra_flat] f
  have "normalizeSystemInfo ultra_flat ''fans'' = None"
    by (simp add: ultra_flat_def field_def)
  moreover from arrays_never_emptied [of fan_in_fans] a
  have "\<exists>fs'. normalizeSystemInfo fan_in_fans ''fans'' = Some (JArr fs') \<and> length fs' = 1"
    by simp
  ultimately show ?thesis using s f a by blast
qed

section \<open>The synthesized sensors array\<close>

text \<open>
  C3, as stated: every present flat temperature field would get an entry. For the input
  \<^verbatim>\<open>{temp_cpu1: 41, temp_cpum: 50}\<close> the field \<^verbatim>\<open>temp_cpu1\<close> is present and gets none.
\<close>

theorem cpu1_without_cpu0_counterexample:
  "\<not> is_array (field cpu1_and_cpum ''sensors'')
   \<and> \<not> nullish (field cpu1_and_cpum ''temp_cpu1'')
   \<and> normalizeSystemInfo cpu1_and_cpum ''sensors''
       = Some (JArr [Sensor ''temp_cpum'' ''CPU'' (JNum 50)])"
  by (simp add: cpu1_and_cpum_def normalizer_defs)

text \<open>
  C3, amended: for an input without an array-shaped \<^verbatim>\<open>sensors\<close> field, the synthesized
  array has one entry per present flat field, the per-core fields first (only when
  \<^verbatim>\<open>temp_cpu0\<close> itself is present), then main CPU, CPU box and switch, each under the name
  the display-name lookup gives; when no entry results, the \<^verbatim>\<open>sensors\<close> key is left as it
  was.
\<close>

theorem synthesized_sensors:
  assumes "\<not> is_array (field data ''sensors'')"
  shows "let candidates = (if \<not> nullish (field data ''temp_cpu0'') then core_fields else [])
                          @ aggregate_fields;
             present = filter (\<lambda>(k, n). \<not> nullish (field data k)) candidates
         in normalizeSystemInfo data ''sensors''
              = (if present = [] then data ''sensors''
                 else Some (JArr (map (\<lambda>(k, n). Sensor k n (field data k)) present)))
          \<and> (\<forall>(k, n) \<in> set present. \<forall>original. getSensorDisplayName k original = n)"
proof -
  define candidates where
    "candidates = (if \<not> nullish (field data ''temp_cpu0'') then core_fields else []) @ aggregate_fields"
  define present where "present = filter (\<lambda>(k, n). \<not> nullish (field data k)) candidates"
  have legacy: "legacy_sensors data = map (\<lambda>(k, n). Sensor k n (field data k)) present"
    unfolding present_def candidates_def by (rule legacy_sensors_filter)
  have "normalizeSystemInfo data ''sensors'' =
          (if legacy_sensors data = [] then data ''sensors'' else Some (JArr (legacy_sensors data)))"
    using assms by (cases "field data ''sensors''") (simp_all add: normalizeSystemInfo_sensors)
  then have first: "normalizeSystemInfo data ''sensors''
              = (if present = [] then data ''sensors''
                 else Some (JArr (map (\<lambda>(k, n). Sensor k n (field data k)) present)))"
    by (simp add: legacy)
  have "set candidates \<subseteq> set (core_fields @ aggregate_fields)"
    unfolding candidates_def by (cases "nullish (field data ''temp_cpu0'')") simp_all
  then have "set present \<subseteq> set (core_fields @ aggregate_fields)"
    unfolding present_def by (meson filter_is_subset subset_trans)
  then have second: "\<forall>(k, n) \<in> set present. \<forall>original. getSensorDisplayName k original = n"
    using flat_fields_named by blast
  from first second show ?thesis
    unfolding Let_def candidates_def [symmetric] present_def [symmetric] by (rule conjI)
qed

theorem synthesized_sensors_witness:
  "\<not> is_array (field mixed_flat ''sensors'')
   \<and> normalizeSystemInfo mixed_flat ''sensors'' = Some (JArr
        [Sensor ''temp_cpu0'' ''CPU 0'' (JNum 40), Sensor ''temp_cpu2'' ''CPU 2'' (JNum 41),
         Sensor ''temp_cpub'' ''CPU Box'' (JNum 45), Sensor ''temp_sw'' ''Switch'' (JNum 47)])"
proof -
  have h: "\<not> is_array (field mixed_flat ''sensors'')"
    by (simp add: mixed_flat_def field_def)
  have "normalizeSystemInfo mixed_flat ''sensors'' =
      (if filter (\<lambda>(k, n). \<not> nullish (field mixed_flat k))
            ((if \<not> nullish (field mixed_flat ''temp_cpu0'') then core_fields else []) @ aggregate_fields) = []
       then mixed_flat ''sensors''
       else Some (JArr (map (\<lambda>(k, n). Sensor k n (field mixed_flat k))
          (filter (\<lambda>(k, n). \<not> nullish (field mixed_flat k))
            ((if \<not> nullish (field mixed_flat ''temp_cpu0'') then core_fields else []) @ aggregate_fields)))))"
    using synthesized_sensors [OF h] unfolding Let_def by (rule conjunct1)
  then have "normalizeSystemInfo mixed_flat ''sensors'' = Some (JArr
        [Sensor ''temp_cpu0'' ''CPU 0'' (JNum 40), Sensor ''temp_cpu2'' ''CPU 2'' (JNum 41),
         Sensor ''temp_cpub'' ''CPU Box'' (JNum 45), Sensor ''temp_sw'' ''Switch'' (JNum 47)])"
    by (simp add: mixed_flat_def field_def core_fields_def aggregate_fields_def)
  with h show ?thesis by (rule conjI)
qed

section \<open>Normalizing twice\<close>

subsection \<open>Display names\<close>

lemma getFanDisplayName_twice:
  "getFanDisplayName i (getFanDisplayName i n) = getFanDisplayName i n"
  by (simp add: getFanDisplayName_def split: option.split)

lemma normalize_fan_twice: "normalize_fan (normalize_fan f) = normalize_fan f"
  by (simp add: normalize_fan_def getFanDisplayName_twice)

lemma getSensorDisplayName_table:
  "map_of SENSOR_NAMES i \<noteq> None \<Longrightarrow>
   getSensorDisplayName i (getSensorDisplayName i n) = getSensorDisplayName i n"
  by (auto simp: getSensorDisplayName_def)

lemma normalize_sensor_twice:
  "map_of SENSOR_NAMES (sensor_id s) \<noteq> None \<Longrightarrow>
   normalize_sensor (normalize_sensor s) = normalize_sensor s"
  by (simp add: normalize_sensor_def getSensorDisplayName_table)

lemma legacy_sensors_entries:
  assumes "s \<in> set (legacy_sensors d)"
  obtains k n where "s = Sensor k n (field d k)" and "(k, n) \<in> set (core_fields @ aggregate_fields)"
proof -
  from assms obtain k n
    where s: "s = Sensor k n (field d k)"
      and kn: "(k, n) \<in> set ((if \<not> nullish (field d ''temp_cpu0'') then core_fields else [])
                            @ aggregate_fields)"
    unfolding legacy_sensors_filter by auto
  from kn have "(k, n) \<in> set (core_fields @ aggregate_fields)"
    by (cases "nullish (field d ''temp_cpu0'')") simp_all
  with s show ?thesis by (rule that)
qed

lemma normalize_sensor_legacy:
  assumes "s \<in> set (legacy_sensors d)"
  shows "normalize_sensor s = s"
proof -
  from assms obtain k n
    where s: "s = Sensor k n (field d k)" and kn: "(k, n) \<in> set (core_fields @ aggregate_fields)"
    by (rule legacy_sensors_entries)
  from kn have "getSensorDisplayName k n = n" by (rule flat_fields_named)
  with s show ?thesis by (simp add: normalize_sensor_def)
qed

subsection \<open>The main fan\<close>

lemma is_main_fan_normalize: "is_main_fan (normalize_fan f) = is_main_fan f"
  by (simp add: is_main_fan_def normalize_fan_def)

lemma find_main_fan_normalize:
  "find is_main_fan (map normalize_fan fs) = map_option normalize_fan (find is_main_fan fs)"
  by (induction fs) (simp_all add: is_main_fan_normalize)

lemma mainFan_normalize:
  "mainFan (map normalize_fan fs) = map_option normalize_fan (mainFan fs)"
  by (cases fs) (simp_all add: mainFan_def find_main_fan_normalize is_main_fan_normalize
      split: option.split)

subsection \<open>The fans, twice\<close>

lemma field_Some: "data k = Some v \<Longrightarrow> field data k = v"
  by (simp add: field_def)

lemma field_not_nullish: "\<not> nullish (field data k) \<Longrightarrow> data k = Some (field data k)"
  by (cases "data k") (simp_all add: field_def)

lemma twice_fans:
  "normalizeSystemInfo (normalizeSystemInfo data) ''fans'' = normalizeSystemInfo data ''fans''"
proof (cases "is_array (field data ''fans'')")
  case True
  then obtain fs where fs: "field data ''fans'' = JArr fs"
    by (cases "field data ''fans''") simp_all
  then have "field (normalizeSystemInfo data) ''fans'' = JArr (map normalize_fan fs)"
    by (simp add: fans_array_kept field_Some)
  then have "normalizeSystemInfo (normalizeSystemInfo data) ''fans''
               = Some (JArr (map normalize_fan (map normalize_fan fs)))"
    by (rule fans_array_kept)
  with fs show ?thesis by (simp add: fans_array_kept normalize_fan_twice)
next
  case False
  note legacy = fans_legacy [OF False]
  show ?thesis
  proof (cases "nullish (field data ''fan_rpm'')")
    case True
    with legacy have same: "normalizeSystemInfo data ''fans'' = data ''fans''" by simp
    then have "\<not> is_array (field (normalizeSystemInfo data) ''fans'')"
      using False by (simp add: field_def same)
    moreover have "normalizeSystemInfo data ''fan_rpm'' = data ''fan_rpm''"
      using False by (cases "field data ''fans''") (simp_all add: normalizeSystemInfo_fan_rpm)
    then have "nullish (field (normalizeSystemInfo data) ''fan_rpm'')"
      using True by (simp add: field_def)
    ultimately show ?thesis by (simp add: fans_legacy)
  next
    case rpm: False
    with legacy have
      "normalizeSystemInfo data ''fans''
         = Some (JArr [Sensor ''fan_rpm'' ''Ventilateur'' (field data ''fan_rpm'')])"
      by simp
    moreover from this have
      "field (normalizeSystemInfo data) ''fans''
         = JArr [Sensor ''fan_rpm'' ''Ventilateur'' (field data ''fan_rpm'')]"
      by (rule field_Some)
    then have "normalizeSystemInfo (normalizeSystemInfo data) ''fans''
         = Some (JArr (map normalize_fan [Sensor ''fan_rpm'' ''Ventilateur'' (field data ''fan_rpm'')]))"
      by (rule fans_array_kept)
    ultimately show ?thesis
      by (simp add: normalize_fan_def getFanDisplayName_def FAN_NAMES_def)
  qed
qed

lemma twice_fan_rpm:
  "normalizeSystemInfo (normalizeSystemInfo data) ''fan_rpm'' = normalizeSystemInfo data ''fan_rpm''"
proof (cases "is_array (field data ''fans'')")
  case True
  then obtain fs where fs: "field data ''fans'' = JArr fs"
    by (cases "field data ''fans''") simp_all
  then have y: "field (normalizeSystemInfo data) ''fans'' = JArr (map normalize_fan fs)"
    by (simp add: fans_array_kept field_Some)
  show ?thesis
    by (cases "mainFan fs")
       (simp_all add: normalizeSystemInfo_fan_rpm [of "normalizeSystemInfo data"] y
          mainFan_normalize normalizeSystemInfo_fan_rpm [of data] fs normalize_fan_def)
next
  case False
  then have same: "normalizeSystemInfo data ''fan_rpm'' = data ''fan_rpm''"
    by (cases "field data ''fans''") (simp_all add: normalizeSystemInfo_fan_rpm)
  show ?thesis
  proof (cases "nullish (field data ''fan_rpm'')")
    case True
    with fans_legacy [OF False] have "normalizeSystemInfo data ''fans'' = data ''fans''" by simp
    then have "\<not> is_array (field (normalizeSystemInfo data) ''fans'')"
      using False by (simp add: field_def)
    then show ?thesis
      by (cases "field (normalizeSystemInfo data) ''fans''")
         (simp_all add: normalizeSystemInfo_fan_rpm [of "normalizeSystemInfo data"])
  next
    case rpm: False
    with fans_legacy [OF False] have
      "field (normalizeSystemInfo data) ''fans''
         = JArr [Sensor ''fan_rpm'' ''Ventilateur'' (field data ''fan_rpm'')]"
      by (simp add: field_Some)
    then have "normalizeSystemInfo (normalizeSystemInfo data) ''fan_rpm''
                 = Some (field data ''fan_rpm'')"
      by (simp add: normalizeSystemInfo_fan_rpm [of "normalizeSystemInfo data"] mainFan_def
          is_main_fan_def)
    with same rpm show ?thesis by (simp add: field_not_nullish)
  qed
qed

subsection \<open>The flat fields after one application\<close>

lemma normalizeSystemInfo_other:
  "k \<noteq> ''fans'' \<Longrightarrow> k \<noteq> ''fan_rpm'' \<Longrightarrow>
   normalizeSystemInfo data k = normalize_sensors data data k"
  by (simp add: normalizeSystemInfo_def normalize_fans_other)

lemma derive_cpum_cong:
  assumes "r ''temp_cpu0'' = r' ''temp_cpu0''" "r ''temp_cpu1'' = r' ''temp_cpu1''"
    "r ''temp_cpu2'' = r' ''temp_cpu2''" "r ''temp_cpu3'' = r' ''temp_cpu3''"
    "r ''temp_cpum'' = r' ''temp_cpum''"
  shows "derive_cpum r ''temp_cpum'' = derive_cpum r' ''temp_cpum''"
  using assms by (simp add: derive_cpum_cpum field_def)

text \<open>Deriving again, from a record whose cpum is the old one or the derived one.\<close>

lemma derive_cpum_again:
  assumes "r' ''temp_cpu0'' = r ''temp_cpu0''" "r' ''temp_cpu1'' = r ''temp_cpu1''"
    "r' ''temp_cpu2'' = r ''temp_cpu2''" "r' ''temp_cpu3'' = r ''temp_cpu3''"
    and "r' ''temp_cpum'' = r ''temp_cpum'' \<or> r' ''temp_cpum'' = derive_cpum r ''temp_cpum''"
  shows "derive_cpum r' ''temp_cpum'' = derive_cpum r ''temp_cpum''"
proof -
  from assms(5) show ?thesis
  proof
    assume "r' ''temp_cpum'' = r ''temp_cpum''"
    with assms(1-4) show ?thesis by (rule derive_cpum_cong)
  next
    assume d: "r' ''temp_cpum'' = derive_cpum r ''temp_cpum''"
    show ?thesis
    proof (cases "\<not> nullish (field r ''temp_cpu0'') \<and> nullish (field r ''temp_cpum'')")
      case True
      then have "derive_cpum r ''temp_cpum'' = Some (round_mean (filter (\<lambda>t. \<not> nullish t)
             [field r ''temp_cpu0'', field r ''temp_cpu1'',
              field r ''temp_cpu2'', field r ''temp_cpu3'']))"
        unfolding derive_cpum_cpum by (rule if_P)
      with d have "\<not> nullish (field r' ''temp_cpum'')"
        by (simp add: field_def round_mean_not_nullish)
      then have "derive_cpum r' ''temp_cpum'' = r' ''temp_cpum''"
        unfolding derive_cpum_cpum by simp
      with d show ?thesis by simp
    next
      case False
      then have "derive_cpum r ''temp_cpum'' = r ''temp_cpum''"
        unfolding derive_cpum_cpum by (rule if_not_P)
      with d have "r' ''temp_cpum'' = r ''temp_cpum''" by simp
      with assms(1-4) show ?thesis by (rule derive_cpum_cong)
    qed
  qed
qed

lemma array_flat:
  assumes "field data ''sensors'' = JArr ss" and "k \<noteq> ''sensors''" and "k \<noteq> ''temp_cpum''"
  shows "normalize_sensors data r k = (r ++ flat_writes ss) k"
  using assms(2,3)
  by (simp add: normalize_sensors_array [OF assms(1)] derive_cpum_other map_add_def
      split: option.split)

lemma array_cpum:
  assumes "field data ''sensors'' = JArr ss"
  shows "normalize_sensors data r ''temp_cpum'' = derive_cpum (r ++ flat_writes ss) ''temp_cpum''"
  unfolding normalize_sensors_array [OF assms]
  by (rule derive_cpum_cong) (simp_all add: map_add_def split: option.split)

subsection \<open>Array-shaped input, twice\<close>

lemma twice_array_flat:
  assumes ss: "field data ''sensors'' = JArr ss"
    and k: "k \<noteq> ''sensors''" "k \<noteq> ''temp_cpum''" "k \<noteq> ''fans''" "k \<noteq> ''fan_rpm''"
  shows "normalizeSystemInfo (normalizeSystemInfo data) k = normalizeSystemInfo data k"
proof -
  have once: "normalizeSystemInfo data k = (data ++ flat_writes ss) k"
    using k by (simp add: normalizeSystemInfo_other array_flat [OF ss])
  have "field (normalizeSystemInfo data) ''sensors'' = JArr (map normalize_sensor ss)"
    using ss by (simp add: sensors_array_kept field_Some)
  then have "normalizeSystemInfo (normalizeSystemInfo data) k
               = (normalizeSystemInfo data ++ flat_writes ss) k"
    using k by (simp add: normalizeSystemInfo_other array_flat flat_writes_normalize)
  also have "\<dots> = normalizeSystemInfo data k"
    using once by (simp add: map_add_def split: option.split)
  finally show ?thesis .
qed

lemma twice_array_cpum:
  assumes ss: "field data ''sensors'' = JArr ss"
  shows "normalizeSystemInfo (normalizeSystemInfo data) ''temp_cpum''
           = normalizeSystemInfo data ''temp_cpum''"
proof -
  let ?y = "normalizeSystemInfo data"
  let ?w = "flat_writes ss"
  have core: "?y k = (data ++ ?w) k"
    if "k \<noteq> ''sensors''" "k \<noteq> ''temp_cpum''" "k \<noteq> ''fans''" "k \<noteq> ''fan_rpm''" for k
    using that by (simp add: normalizeSystemInfo_other array_flat [OF ss])
  have once: "?y ''temp_cpum'' = derive_cpum (data ++ ?w) ''temp_cpum''"
    by (simp add: normalizeSystemInfo_other array_cpum [OF ss])
  have "field ?y ''sensors'' = JArr (map normalize_sensor ss)"
    using ss by (simp add: sensors_array_kept field_Some)
  then have "normalizeSystemInfo ?y ''temp_cpum'' = derive_cpum (?y ++ ?w) ''temp_cpum''"
    by (simp add: normalizeSystemInfo_other array_cpum flat_writes_normalize)
  also have "\<dots> = derive_cpum (data ++ ?w) ''temp_cpum''"
  proof (rule derive_cpum_again)
    show "(?y ++ ?w) ''temp_cpu0'' = (data ++ ?w) ''temp_cpu0''"
      using core [of "''temp_cpu0''"] by (simp add: map_add_def split: option.split)
    show "(?y ++ ?w) ''temp_cpu1'' = (data ++ ?w) ''temp_cpu1''"
      using core [of "''temp_cpu1''"] by (simp add: map_add_def split: option.split)
    show "(?y ++ ?w) ''temp_cpu2'' = (data ++ ?w) ''temp_cpu2''"
      using core [of "''temp_cpu2''"] by (simp add: map_add_def split: option.split)
    show "(?y ++ ?w) ''temp_cpu3'' = (data ++ ?w) ''temp_cpu3''"
      using core [of "''temp_cpu3''"] by (simp add: map_add_def split: option.split)
    show "(?y ++ ?w) ''temp_cpum'' = (data ++ ?w) ''temp_cpum''
          \<or> (?y ++ ?w) ''temp_cpum'' = derive_cpum (data ++ ?w) ''temp_cpum''"
      using once by (simp add: map_add_def split: option.split)
  qed
  also have "\<dots> = ?y ''temp_cpum''" using once by simp
  finally show ?thesis .
qed

lemma twice_array_sensors:
  assumes ss: "field data ''sensors'' = JArr ss"
  shows "normalizeSystemInfo data ''sensors'' = Some (JArr (map normalize_sensor ss))"
    and "normalizeSystemInfo (normalizeSystemInfo data) ''sensors''
           = Some (JArr (map normalize_sensor (map normalize_sensor ss)))"
proof -
  show first: "normalizeSystemInfo data ''sensors'' = Some (JArr (map normalize_sensor ss))"
    using ss by (rule sensors_array_kept)
  then have "field (normalizeSystemInfo data) ''sensors'' = JArr (map normalize_sensor ss)"
    by (rule field_Some)
  then show "normalizeSystemInfo (normalizeSystemInfo data) ''sensors''
           = Some (JArr (map normalize_sensor (map normalize_sensor ss)))"
    by (rule sensors_array_kept)
qed

subsection \<open>Flat input, twice\<close>

lemma flat_fields_plain:
  "\<forall>(k, n) \<in> set (core_fields @ aggregate_fields).
     startsWith k ''temp_'' \<and> k \<notin> set [''t1'', ''cpu_ap'', ''t2'', ''cpu_cp'', ''t3'', ''switch'']"
  by (simp add: core_fields_def aggregate_fields_def startsWith_def)

lemma extract_flat_plain:
  assumes "(k, n) \<in> set (core_fields @ aggregate_fields)"
  shows "extract_flat (Sensor k n v) r = r(k \<mapsto> v)"
proof -
  from assms flat_fields_plain
  have "startsWith k ''temp_'' \<and> k \<notin> set [''t1'', ''cpu_ap'', ''t2'', ''cpu_cp'', ''t3'', ''switch'']"
    by blast
  then show ?thesis by (simp add: extract_flat_def Let_def)
qed

lemma legacy_sensors_present:
  assumes "s \<in> set (legacy_sensors d)"
  shows "d (sensor_id s) = Some (sensor_value s)"
proof -
  from assms obtain k n
    where s: "s = Sensor k n (field d k)" and "\<not> nullish (field d k)"
    unfolding legacy_sensors_filter by auto
  then show ?thesis by (simp add: field_not_nullish)
qed

lemma flat_writes_Cons: "flat_writes (s # ss) = extract_flat s Map.empty ++ flat_writes ss"
  using fold_extract_flat_add [of ss "extract_flat s Map.empty"] by (simp add: flat_writes_def)

lemma flat_writes_sub:
  assumes "\<forall>s \<in> set ss. d (sensor_id s) = Some (sensor_value s)
             \<and> extract_flat s Map.empty = [sensor_id s \<mapsto> sensor_value s]"
    and "flat_writes ss k = Some v"
  shows "d k = Some v"
  using assms
proof (induction ss)
  case Nil
  then show ?case by (simp add: flat_writes_def)
next
  case (Cons s ss)
  show ?case
  proof (cases "flat_writes ss k")
    case None
    with Cons.prems have "k = sensor_id s \<and> v = sensor_value s"
      by (auto simp: flat_writes_Cons map_add_def split: if_splits)
    with Cons.prems(1) show ?thesis by simp
  next
    case (Some u)
    with Cons.prems(2) have "flat_writes ss k = Some v"
      by (simp add: flat_writes_Cons map_add_def)
    with Cons.IH Cons.prems(1) show ?thesis by simp
  qed
qed

lemma flat_writes_legacy:
  assumes "flat_writes (legacy_sensors d) k = Some v"
  shows "d k = Some v"
proof (rule flat_writes_sub [OF _ assms], intro ballI conjI)
  fix s assume s: "s \<in> set (legacy_sensors d)"
  then show "d (sensor_id s) = Some (sensor_value s)" by (rule legacy_sensors_present)
  from s obtain k n
    where "s = Sensor k n (field d k)" and "(k, n) \<in> set (core_fields @ aggregate_fields)"
    by (rule legacy_sensors_entries)
  then show "extract_flat s Map.empty = [sensor_id s \<mapsto> sensor_value s]"
    by (simp add: extract_flat_plain)
qed

lemma legacy_sensors_cong:
  assumes "\<forall>k \<in> set (map fst (core_fields @ aggregate_fields)). d' k = d k"
  shows "legacy_sensors d' = legacy_sensors d"
proof -
  from assms have "field d' k = field d k" if "k \<in> set (map fst (core_fields @ aggregate_fields))" for k
    using that by (simp add: field_def)
  then show ?thesis
    by (simp add: legacy_sensors_def push_flat_def core_fields_def aggregate_fields_def)
qed

lemma once_legacy:
  assumes "\<not> is_array (field data ''sensors'')" and "k \<noteq> ''sensors''" "k \<noteq> ''fans''" "k \<noteq> ''fan_rpm''"
  shows "normalizeSystemInfo data k = data k"
  using assms(2-)
  by (simp add: normalizeSystemInfo_other normalize_sensors_legacy [OF assms(1)])

lemma twice_legacy_empty:
  assumes na: "\<not> is_array (field data ''sensors'')" and e: "legacy_sensors data = []"
    and k: "k \<noteq> ''fans''" "k \<noteq> ''fan_rpm''"
  shows "normalizeSystemInfo (normalizeSystemInfo data) k = normalizeSystemInfo data k"
proof -
  let ?y = "normalizeSystemInfo data"
  have same: "?y j = data j" if "j \<noteq> ''fans''" "j \<noteq> ''fan_rpm''" for j
    using that e by (simp add: normalizeSystemInfo_other normalize_sensors_legacy [OF na])
  have "field ?y ''sensors'' = field data ''sensors''"
    by (simp add: field_def same)
  with na have na': "\<not> is_array (field ?y ''sensors'')" by simp
  have "legacy_sensors ?y = legacy_sensors data"
    by (rule legacy_sensors_cong) (simp add: core_fields_def aggregate_fields_def same)
  with e have "legacy_sensors ?y = []" by simp
  with k show ?thesis
    by (simp add: normalizeSystemInfo_other [of k ?y] normalize_sensors_legacy [OF na'])
qed

lemma twice_legacy_some:
  assumes na: "\<not> is_array (field data ''sensors'')" and ne: "legacy_sensors data \<noteq> []"
  shows "k \<noteq> ''temp_cpum'' \<Longrightarrow> k \<noteq> ''fans'' \<Longrightarrow> k \<noteq> ''fan_rpm'' \<Longrightarrow>
           normalizeSystemInfo (normalizeSystemInfo data) k = normalizeSystemInfo data k"
    and "normalizeSystemInfo (normalizeSystemInfo data) ''temp_cpum'' = derive_cpum data ''temp_cpum''"
proof -
  let ?y = "normalizeSystemInfo data"
  let ?l = "legacy_sensors data"
  have same: "?y j = data j" if "j \<noteq> ''sensors''" "j \<noteq> ''fans''" "j \<noteq> ''fan_rpm''" for j
    using that by (rule once_legacy [OF na])
  have sens: "?y ''sensors'' = Some (JArr ?l)"
    using ne by (simp add: sensors_legacy [OF na])
  then have arr: "field ?y ''sensors'' = JArr ?l" by (rule field_Some)
  have add: "(?y ++ flat_writes ?l) j = data j"
    if "j \<noteq> ''sensors''" "j \<noteq> ''fans''" "j \<noteq> ''fan_rpm''" for j
  proof (cases "flat_writes ?l j")
    case None
    then show ?thesis using same [OF that] by (simp add: map_add_def)
  next
    case (Some v)
    then have "data j = Some v" by (rule flat_writes_legacy)
    with Some show ?thesis by (simp add: map_add_def)
  qed
  show "normalizeSystemInfo ?y k = ?y k"
    if k: "k \<noteq> ''temp_cpum''" "k \<noteq> ''fans''" "k \<noteq> ''fan_rpm''"
  proof (cases "k = ''sensors''")
    case True
    have "map normalize_sensor ?l = ?l"
      by (rule map_idI) (rule normalize_sensor_legacy)
    then have "normalizeSystemInfo ?y ''sensors'' = Some (JArr ?l)"
      using sensors_array_kept [OF arr] by simp
    with sens True show ?thesis by simp
  next
    case False
    with k have "normalizeSystemInfo ?y k = (?y ++ flat_writes ?l) k"
      by (simp add: normalizeSystemInfo_other array_flat [OF arr])
    also have "\<dots> = data k" using False k by (simp add: add)
    also have "\<dots> = ?y k" using False k by (simp add: same)
    finally show ?thesis .
  qed
  have "normalizeSystemInfo ?y ''temp_cpum'' = derive_cpum (?y ++ flat_writes ?l) ''temp_cpum''"
    by (simp add: normalizeSystemInfo_other array_cpum [OF arr])
  also have "\<dots> = derive_cpum data ''temp_cpum''"
    by (rule derive_cpum_cong) (simp_all add: add)
  finally show "normalizeSystemInfo ?y ''temp_cpum'' = derive_cpum data ''temp_cpum''" .
qed

subsection \<open>Both shapes\<close>

lemma ids_and_values_normalize: "ids_and_values (map normalize_sensor ss) = ids_and_values ss"
  by (simp add: ids_and_values_def normalize_sensor_def)

lemma sensors_of_Some: "data ''sensors'' = Some (JArr ss) \<Longrightarrow> sensors_of data = ss"
  by (simp add: sensors_of_def field_def)

lemma twice_other_keys:
  assumes "k \<noteq> ''sensors''" and "k \<noteq> ''temp_cpum''"
  shows "normalizeSystemInfo (normalizeSystemInfo data) k = normalizeSystemInfo data k"
proof (cases "k = ''fans'' \<or> k = ''fan_rpm''")
  case True
  then show ?thesis using twice_fans twice_fan_rpm by blast
next
  case False
  then have k: "k \<noteq> ''fans''" "k \<noteq> ''fan_rpm''" by simp_all
  show ?thesis
  proof (cases "is_array (field data ''sensors'')")
    case True
    then obtain ss where "field data ''sensors'' = JArr ss"
      by (cases "field data ''sensors''") simp_all
    then show ?thesis using assms k by (rule twice_array_flat)
  next
    case na: False
    show ?thesis
    proof (cases "legacy_sensors data = []")
      case True
      with na show ?thesis using k by (rule twice_legacy_empty)
    next
      case False
      with na show ?thesis using assms(2) k by (rule twice_legacy_some(1))
    qed
  qed
qed

lemma twice_sensors:
  shows "is_array (field (normalizeSystemInfo (normalizeSystemInfo data)) ''sensors'')
     = is_array (field (normalizeSystemInfo data) ''sensors'')"
  and "ids_and_values (sensors_of (normalizeSystemInfo (normalizeSystemInfo data)))
     = ids_and_values (sensors_of (normalizeSystemInfo data))"
  and "\<forall>s \<in> set (sensors_of data). map_of SENSOR_NAMES (sensor_id s) \<noteq> None \<Longrightarrow>
       normalizeSystemInfo (normalizeSystemInfo data) ''sensors'' = normalizeSystemInfo data ''sensors''"
proof -
  let ?y = "normalizeSystemInfo data"
  let ?z = "normalizeSystemInfo ?y"
  have "is_array (field ?z ''sensors'') = is_array (field ?y ''sensors'')
        \<and> ids_and_values (sensors_of ?z) = ids_and_values (sensors_of ?y)
        \<and> ((\<forall>s \<in> set (sensors_of data). map_of SENSOR_NAMES (sensor_id s) \<noteq> None)
             \<longrightarrow> ?z ''sensors'' = ?y ''sensors'')"
  proof (cases "is_array (field data ''sensors'')")
    case True
    then obtain ss where ss: "field data ''sensors'' = JArr ss"
      by (cases "field data ''sensors''") simp_all
    note y = twice_array_sensors(1) [OF ss] and z = twice_array_sensors(2) [OF ss]
    have d: "sensors_of data = ss" using ss by (simp add: sensors_of_def)
    have sy: "sensors_of ?y = map normalize_sensor ss"
      and fy: "field ?y ''sensors'' = JArr (map normalize_sensor ss)"
      using y by (simp_all add: sensors_of_def field_def)
    have sz: "sensors_of ?z = map normalize_sensor (map normalize_sensor ss)"
      and fz: "field ?z ''sensors'' = JArr (map normalize_sensor (map normalize_sensor ss))"
      using z by (simp_all add: sensors_of_def field_def)
    have names: "?z ''sensors'' = ?y ''sensors''"
      if "\<forall>s \<in> set (sensors_of data). map_of SENSOR_NAMES (sensor_id s) \<noteq> None"
    proof -
      from that d have "map normalize_sensor (map normalize_sensor ss) = map normalize_sensor ss"
        by (simp add: normalize_sensor_twice)
      with y z show ?thesis by (simp only:)
    qed
    have "is_array (field ?z ''sensors'') = is_array (field ?y ''sensors'')"
      by (simp only: fy fz is_array.simps)
    moreover have "ids_and_values (sensors_of ?z) = ids_and_values (sensors_of ?y)"
      by (simp only: sy sz ids_and_values_normalize)
    ultimately show ?thesis using names by blast
  next
    case na: False
    have "?z ''sensors'' = ?y ''sensors''"
    proof (cases "legacy_sensors data = []")
      case True
      with na show ?thesis by (rule twice_legacy_empty) simp_all
    next
      case False
      with na show ?thesis by (rule twice_legacy_some(1)) simp_all
    qed
    then show ?thesis by (simp add: sensors_of_def field_def)
  qed
  then show "is_array (field ?z ''sensors'') = is_array (field ?y ''sensors'')"
    and "ids_and_values (sensors_of ?z) = ids_and_values (sensors_of ?y)"
    and "\<forall>s \<in> set (sensors_of data). map_of SENSOR_NAMES (sensor_id s) \<noteq> None \<Longrightarrow>
         ?z ''sensors'' = ?y ''sensors''"
    by simp_all
qed

lemma twice_cpum:
  "if \<not> is_array (field data ''sensors'') \<and> \<not> nullish (field data ''temp_cpu0'')
        \<and> nullish (field data ''temp_cpum'')
   then normalizeSystemInfo data ''temp_cpum'' = data ''temp_cpum''
      \<and> normalizeSystemInfo (normalizeSystemInfo data) ''temp_cpum''
          = Some (round_mean (filter (\<lambda>t. \<not> nullish t)
               [field data ''temp_cpu0'', field data ''temp_cpu1'',
                field data ''temp_cpu2'', field data ''temp_cpu3'']))
   else normalizeSystemInfo (normalizeSystemInfo data) ''temp_cpum''
          = normalizeSystemInfo data ''temp_cpum''"
proof (cases "is_array (field data ''sensors'')")
  case True
  then obtain ss where "field data ''sensors'' = JArr ss"
    by (cases "field data ''sensors''") simp_all
  then have "normalizeSystemInfo (normalizeSystemInfo data) ''temp_cpum''
          = normalizeSystemInfo data ''temp_cpum''"
    by (rule twice_array_cpum)
  with True show ?thesis by simp
next
  case na: False
  have once: "normalizeSystemInfo data ''temp_cpum'' = data ''temp_cpum''"
    by (rule once_legacy [OF na]) simp_all
  show ?thesis
  proof (cases "legacy_sensors data = []")
    case True
    then have "nullish (field data ''temp_cpu0'')" by (simp add: legacy_sensors_empty)
    moreover have "normalizeSystemInfo (normalizeSystemInfo data) ''temp_cpum''
          = normalizeSystemInfo data ''temp_cpum''"
      using na True by (rule twice_legacy_empty) simp_all
    ultimately show ?thesis by simp
  next
    case False
    have "normalizeSystemInfo (normalizeSystemInfo data) ''temp_cpum'' = derive_cpum data ''temp_cpum''"
      using na False by (rule twice_legacy_some(2))
    then show ?thesis using na once unfolding derive_cpum_cpum by simp
  qed
qed

text \<open>
  C7, as stated: a second application would change neither the flat fields nor the
  arrays. For the flat input with the four core temperatures, the first application leaves
  \<^verbatim>\<open>temp_cpum\<close> absent and the second one sets it to 42. For a sensor whose name carries
  the prefix twice, each application strips one.
\<close>

theorem normalize_twice_counterexample:
  "normalizeSystemInfo (normalizeSystemInfo ultra_flat) ''temp_cpum''
     \<noteq> normalizeSystemInfo ultra_flat ''temp_cpum''
   \<and> normalizeSystemInfo ultra_flat ''temp_cpum'' = None
   \<and> normalizeSystemInfo (normalizeSystemInfo ultra_flat) ''temp_cpum'' = Some (JNum 42)
   \<and> normalizeSystemInfo doubly_prefixed ''sensors''
       = Some (JArr [Sensor ''probe'' ''Temperature X'' (JNum 30)])
   \<and> normalizeSystemInfo (normalizeSystemInfo doubly_prefixed) ''sensors''
       = Some (JArr [Sensor ''probe'' ''X'' (JNum 30)])"
  by (simp add: ultra_flat_def doubly_prefixed_def normalizer_defs name_defs)

text \<open>
  C7, amended: a second application leaves every field other than \<^verbatim>\<open>sensors\<close> and
  \<^verbatim>\<open>temp_cpum\<close> as the first one made it (the \<^verbatim>\<open>fans\<close> array and \<^verbatim>\<open>fan_rpm\<close> included), and
  keeps the ids and values of the \<^verbatim>\<open>sensors\<close> array; the whole \<^verbatim>\<open>sensors\<close> array is kept
  when every sensor id of the input is in the display-name table. \<^verbatim>\<open>temp_cpum\<close> is kept
  too, except for an input without an array-shaped \<^verbatim>\<open>sensors\<close> field that has \<^verbatim>\<open>temp_cpu0\<close>
  and no \<^verbatim>\<open>temp_cpum\<close>: there the first application leaves \<^verbatim>\<open>temp_cpum\<close> as it was and the
  second sets it to the rounded mean of the available core values.
\<close>

theorem normalize_twice:
  "(\<forall>k. k \<noteq> ''sensors'' \<and> k \<noteq> ''temp_cpum'' \<longrightarrow>
        normalizeSystemInfo (normalizeSystemInfo data) k = normalizeSystemInfo data k)
   \<and> is_array (field (normalizeSystemInfo (normalizeSystemInfo data)) ''sensors'')
       = is_array (field (normalizeSystemInfo data) ''sensors'')
   \<and> ids_and_values (sensors_of (normalizeSystemInfo (normalizeSystemInfo data)))
       = ids_and_values (sensors_of (normalizeSystemInfo data))
   \<and> ((\<forall>s \<in> set (sensors_of data). map_of SENSOR_NAMES (sensor_id s) \<noteq> None) \<longrightarrow>
        normalizeSystemInfo (normalizeSystemInfo data) ''sensors''
          = normalizeSystemInfo data ''sensors'')
   \<and> (if \<not> is_array (field data ''sensors'') \<and> \<not> nullish (field data ''temp_cpu0'')
           \<and> nullish (field data ''temp_cpum'')
        then normalizeSystemInfo data ''temp_cpum'' = data ''temp_cpum''
           \<and> normalizeSystemInfo (normalizeSystemInfo data) ''temp_cpum''
               = Some (round_mean (filter (\<lambda>t. \<not> nullish t)
                    [field data ''temp_cpu0'', field data ''temp_cpu1'',
                     field data ''temp_cpu2'', field data ''temp_cpu3'']))
        else normalizeSystemInfo (normalizeSystemInfo data) ''temp_cpum''
               = normalizeSystemInfo data ''temp_cpum'')"
proof (intro conjI allI impI)
  show "normalizeSystemInfo (normalizeSystemInfo data) k = normalizeSystemInfo data k"
    if "k \<noteq> ''sensors'' \<and> k \<noteq> ''temp_cpum''" for k
    using that by (simp add: twice_other_keys)
  show "is_array (field (normalizeSystemInfo (normalizeSystemInfo data)) ''sensors'')
       = is_array (field (normalizeSystemInfo data) ''sensors'')"
    by (rule twice_sensors(1))
  show "ids_and_values (sensors_of (normalizeSystemInfo (normalizeSystemInfo data)))
       = ids_and_values (sensors_of (normalizeSystemInfo data))"
    by (rule twice_sensors(2))
  show "normalizeSystemInfo (normalizeSystemInfo data) ''sensors''
          = normalizeSystemInfo data ''sensors''"
    if "\<forall>s \<in> set (sensors_of data). map_of SENSOR_NAMES (sensor_id s) \<noteq> None"
    using that by (rule twice_sensors(3))
  show "if \<not> is_array (field data ''sensors'') \<and> \<not> nullish (field data ''temp_cpu0'')
           \<and> nullish (field data ''temp_cpum'')
        then normalizeSystemInfo data ''temp_cpum'' = data ''temp_cpum''
           \<and> normalizeSystemInfo (normalizeSystemInfo data) ''temp_cpum''
               = Some (round_mean (filter (\<lambda>t. \<not> nullish t)
                    [field data ''temp_cpu0'', field data ''temp_cpu1'',
                     field data ''temp_cpu2'', field data ''temp_cpu3'']))
        else normalizeSystemInfo (normalizeSystemInfo data) ''temp_cpum''
               = normalizeSystemInfo data ''temp_cpum''"
    by (rule twice_cpum)
qed

theorem normalize_twice_witness:
  "normalizeSystemInfo (normalizeSystemInfo ultra_flat) ''temp_cpu0''
     = normalizeSystemInfo ultra_flat ''temp_cpu0''
   \<and> normalizeSystemInfo (normalizeSystemInfo ultra_flat) ''sensors''
     = normalizeSystemInfo ultra_flat ''sensors''
   \<and> normalizeSystemInfo (normalizeSystemInfo ultra_array) ''temp_cpum''
     = normalizeSystemInfo ultra_array ''temp_cpum''
   \<and> normalizeSystemInfo (normalizeSystemInfo ultra_array) ''sensors''
     = normalizeSystemInfo ultra_array ''sensors''"
proof -
  have a: "sensors_of ultra_flat = []"
    and b: "is_array (field ultra_array ''sensors'')"
    and c: "\<forall>s \<in> set (sensors_of ultra_array). map_of SENSOR_NAMES (sensor_id s) \<noteq> None"
    by (simp_all add: ultra_flat_def ultra_array_def sensors_of_def field_def SENSOR_NAMES_def)
  from normalize_twice [of ultra_flat]
  have "normalizeSystemInfo (normalizeSystemInfo ultra_flat) ''temp_cpu0''
          = normalizeSystemInfo ultra_flat ''temp_cpu0''"
    by simp
  moreover from normalize_twice [of ultra_flat] a
  have "normalizeSystemInfo (normalizeSystemInfo ultra_flat) ''sensors''
          = normalizeSystemInfo ultra_flat ''sensors''"
    by simp
  moreover from normalize_twice [of ultra_array] b
  have "normalizeSystemInfo (normalizeSystemInfo ultra_array) ''temp_cpum''
          = normalizeSystemInfo ultra_array ''temp_cpum''"
    by simp
  moreover from normalize_twice [of ultra_array] c
  have "normalizeSystemInfo (normalizeSystemInfo ultra_array) ''sensors''
          = normalizeSystemInfo ultra_array ''sensors''"
    by blast
  ultimately show ?thesis by blast
qed

end
